theory Spec2Isabelle
  imports Main "HOL-Library.Word"
begin

unbundle bit_operations_syntax

section \<open>Machine model\<close>

text \<open>
  The engines compute on \<open>size_t\<close> and \<open>uintptr_t\<close>. The model fixes the LP64
  data model of the usual 64-bit targets: both are 64-bit unsigned words whose
  arithmetic wraps, a pointer is its address, and \<open>nullptr\<close> is address 0.
\<close>

type_synonym size_t = "64 word"
type_synonym ptr = "64 word"

abbreviation nullptr :: ptr where
  "nullptr \<equiv> 0"


text \<open>
  A failed \<open>assert\<close> aborts the program. Functions that contain one return
  \<open>None\<close> for the abort (the build keeps assertions: \<open>NDEBUG\<close> is not set by
  the sources). Blocks under \<open>#ifdef DEBUG\<close> are compiled out, since the sources
  never define \<open>DEBUG\<close>.
\<close>

section \<open>Layout arithmetic (\<open>include/allocx/utils.hpp\<close>)\<close>

definition is_power_of_two :: "size_t \<Rightarrow> bool" where
  "is_power_of_two v \<longleftrightarrow> v \<noteq> 0 \<and> v AND (v - 1) = 0"



definition calc_padding :: "size_t \<Rightarrow> size_t \<Rightarrow> size_t" where
  "calc_padding address alignment =
     (alignment - (address AND (alignment - 1))) AND (alignment - 1)"

section \<open>Bump engine (\<open>src/stack_allocator.cpp\<close>)\<close>

record StackAllocator =
  s_memory :: ptr
  s_size :: size_t
  s_offset :: size_t
  s_owns_memory :: bool

text \<open>
  The owning constructor: \<open>raw\<close> is what \<open>::operator new(size)\<close> returned
  (only called when \<open>size > 0\<close>).
\<close>

definition stack_new :: "ptr \<Rightarrow> size_t \<Rightarrow> StackAllocator" where
  "stack_new raw sz =
     \<lparr>s_memory = (if sz > 0 then raw else nullptr), s_size = sz,
      s_offset = 0, s_owns_memory = True\<rparr>"

definition stack_new_borrowed :: "ptr \<Rightarrow> size_t \<Rightarrow> StackAllocator option" where
  "stack_new_borrowed buffer sz =
     (if buffer \<noteq> nullptr \<or> sz = 0
      then Some \<lparr>s_memory = buffer, s_size = sz, s_offset = 0, s_owns_memory = False\<rparr>
      else None)"



definition stack_allocate ::
  "StackAllocator \<Rightarrow> size_t \<Rightarrow> size_t \<Rightarrow> ptr \<times> StackAllocator" where
  "stack_allocate a sz alignment =
     (if sz = 0 then (nullptr, a)
      else
        let current_addr = s_memory a + s_offset a;
            padding = calc_padding current_addr alignment
        in if s_offset a + padding + sz > s_size a then (nullptr, a)
           else
             let aligned_offset = s_offset a + padding;
                 p = s_memory a + aligned_offset
             in (p, a\<lparr>s_offset := aligned_offset + sz\<rparr>))"

definition stack_deallocate :: "StackAllocator \<Rightarrow> ptr \<Rightarrow> size_t \<Rightarrow> StackAllocator" where
  "stack_deallocate a p sz = a"

definition stack_reset :: "StackAllocator \<Rightarrow> StackAllocator" where
  "stack_reset a = a\<lparr>s_offset := 0\<rparr>"

definition stack_get_marker :: "StackAllocator \<Rightarrow> size_t" where
  "stack_get_marker a = s_offset a"

definition stack_rollback :: "StackAllocator \<Rightarrow> size_t \<Rightarrow> StackAllocator option" where
  "stack_rollback a marker =
     (if marker \<le> s_offset a then Some (a\<lparr>s_offset := marker\<rparr>) else None)"


definition stack_used_size :: "StackAllocator \<Rightarrow> size_t" where
  "stack_used_size a = s_offset a"

definition stack_free_size :: "StackAllocator \<Rightarrow> size_t" where
  "stack_free_size a = s_size a - s_offset a"

text \<open>A run of allocation requests \<open>(size, alignment)\<close>, each on the state the
  previous one left; the returned pointers are collected in order.\<close>

fun stack_allocate_all ::
  "StackAllocator \<Rightarrow> (size_t \<times> size_t) list \<Rightarrow> ptr list \<times> StackAllocator" where
  "stack_allocate_all a [] = ([], a)"
| "stack_allocate_all a ((sz, alignment) # rs) =
     (let (p, a') = stack_allocate a sz alignment;
          (ps, a'') = stack_allocate_all a' rs
      in (p # ps, a''))"


section \<open>Byte-addressed memory\<close>

text \<open>
  The pool and the heap keep their links and headers inside the backing region, so
  the region's bytes are part of the state. Memory is a total map from byte
  addresses to bytes; the address of a pointer \<open>p\<close> is \<open>unat p\<close>, and the byte
  at offset \<open>k\<close> of an object at \<open>p\<close> is at \<open>unat p + k\<close>. Multi-byte values
  are little-endian.
\<close>

type_synonym memory = "nat \<Rightarrow> 8 word"

fun le_bytes :: "8 word list \<Rightarrow> 64 word" where
  "le_bytes [] = 0"
| "le_bytes (b # bs) = ucast b OR push_bit 8 (le_bytes bs)"

definition load64 :: "memory \<Rightarrow> nat \<Rightarrow> 64 word" where
  "load64 m a =
     le_bytes [m a, m (a + 1), m (a + 2), m (a + 3), m (a + 4), m (a + 5), m (a + 6), m (a + 7)]"

definition store64 :: "memory \<Rightarrow> nat \<Rightarrow> 64 word \<Rightarrow> memory" where
  "store64 m a v =
     (\<lambda>x. if a \<le> x \<and> x < a + 8 then ucast (drop_bit (8 * (x - a)) v) else m x)"

section \<open>Pool engine (\<open>src/pool_allocator.cpp\<close>)\<close>

record PoolAllocator =
  p_memory :: ptr
  p_memory_size :: size_t
  p_chunk_size :: size_t
  p_chunk_count :: size_t
  p_free_count :: size_t
  p_alignment :: size_t
  p_free_list :: ptr
  p_owns_memory :: bool







text \<open>\<open>allocate\<close> ignores its two arguments; it reads memory and does not write it.\<close>

definition pool_allocate :: "memory \<Rightarrow> PoolAllocator \<Rightarrow> ptr \<times> PoolAllocator" where
  "pool_allocate m a =
     (if p_free_list a = nullptr then (nullptr, a)
      else
        let p = p_free_list a
        in (p, a\<lparr>p_free_list := load64 m (unat (p_free_list a)),
                 p_free_count := p_free_count a - 1\<rparr>))"

definition pool_deallocate ::
  "memory \<Rightarrow> PoolAllocator \<Rightarrow> ptr \<Rightarrow> memory \<times> PoolAllocator" where
  "pool_deallocate m a p =
     (if p = nullptr then (m, a)
      else (store64 m (unat p) (p_free_list a),
            a\<lparr>p_free_list := p, p_free_count := p_free_count a + 1\<rparr>))"


definition pool_owns :: "PoolAllocator \<Rightarrow> ptr \<Rightarrow> bool" where
  "pool_owns a p =
     (let start = p_memory a; stop = start + p_memory_size a
      in if p < start \<or> p \<ge> stop then False
         else (p - start) mod p_chunk_size a = 0)"





section \<open>Heap engine (\<open>src/freelist_allocator.cpp\<close>)\<close>

datatype Strategy = FirstFit | BestFit | WorstFit

record FreeListAllocator =
  f_memory :: ptr
  f_size :: size_t
  f_used :: size_t
  f_strategy :: Strategy
  f_free_list :: ptr
  f_owns_memory :: bool

text \<open>
  \<open>struct BlockHeader { size_t size; BlockHeader *next; bool is_free; uint8_t padding; }\<close>
  under the LP64 layout rules: \<open>size\<close> at offset 0, \<open>next\<close> at 8, \<open>is_free\<close> at
  16, \<open>padding\<close> at 17, six unused tail bytes, \<open>sizeof = 24\<close>. A \<open>bool\<close> is
  written as the byte 1 or 0 and reads as true when its byte is not 0.
  \<open>alignof(std::max_align_t)\<close> is 16.
\<close>

definition HEADER_SIZE :: size_t where
  "HEADER_SIZE = 24"

definition MIN_BLOCK_SIZE :: size_t where
  "MIN_BLOCK_SIZE = 8"

definition MAX_ALIGN :: size_t where
  "MAX_ALIGN = 16"

definition hdr_size :: "memory \<Rightarrow> ptr \<Rightarrow> size_t" where
  "hdr_size m b = load64 m (unat b)"

definition hdr_next :: "memory \<Rightarrow> ptr \<Rightarrow> ptr" where
  "hdr_next m b = load64 m (unat b + 8)"

definition hdr_is_free :: "memory \<Rightarrow> ptr \<Rightarrow> bool" where
  "hdr_is_free m b \<longleftrightarrow> m (unat b + 16) \<noteq> 0"

definition hdr_padding :: "memory \<Rightarrow> ptr \<Rightarrow> 8 word" where
  "hdr_padding m b = m (unat b + 17)"

definition set_size :: "memory \<Rightarrow> ptr \<Rightarrow> size_t \<Rightarrow> memory" where
  "set_size m b v = store64 m (unat b) v"

definition set_next :: "memory \<Rightarrow> ptr \<Rightarrow> ptr \<Rightarrow> memory" where
  "set_next m b v = store64 m (unat b + 8) v"

definition set_is_free :: "memory \<Rightarrow> ptr \<Rightarrow> bool \<Rightarrow> memory" where
  "set_is_free m b v = m(unat b + 16 := (if v then 1 else 0))"

definition set_padding :: "memory \<Rightarrow> ptr \<Rightarrow> 8 word \<Rightarrow> memory" where
  "set_padding m b v = m(unat b + 17 := v)"

definition heap_init :: "memory \<Rightarrow> FreeListAllocator \<Rightarrow> memory \<times> FreeListAllocator" where
  "heap_init m a =
     (let b = f_memory a;
          m1 = set_size m b (f_size a - HEADER_SIZE);
          m2 = set_next m1 b nullptr;
          m3 = set_is_free m2 b True;
          m4 = set_padding m3 b 0
      in (m4, a\<lparr>f_free_list := b, f_used := 0\<rparr>))"

text \<open>The owning constructor; \<open>raw\<close> is what \<open>::operator new(size)\<close> returned.\<close>

definition heap_new ::
  "memory \<Rightarrow> ptr \<Rightarrow> size_t \<Rightarrow> Strategy \<Rightarrow> memory \<times> FreeListAllocator" where
  "heap_new m raw sz strategy =
     (let a = \<lparr>f_memory = nullptr, f_size = sz, f_used = 0, f_strategy = strategy,
               f_free_list = nullptr, f_owns_memory = True\<rparr>
      in if sz > HEADER_SIZE then heap_init m (a\<lparr>f_memory := raw\<rparr>) else (m, a))"

definition heap_new_borrowed ::
  "memory \<Rightarrow> ptr \<Rightarrow> size_t \<Rightarrow> Strategy \<Rightarrow> (memory \<times> FreeListAllocator) option" where
  "heap_new_borrowed m buffer sz strategy =
     (if \<not> (buffer \<noteq> nullptr \<or> sz = 0) then None
      else
        let a = \<lparr>f_memory = buffer, f_size = sz, f_used = 0, f_strategy = strategy,
                 f_free_list = nullptr, f_owns_memory = False\<rparr>
        in Some (if sz > HEADER_SIZE then heap_init m a else (m, a)))"



text \<open>
  The three scans follow \<open>next\<close> links until a null link; on a cyclic list they
  do not return, which is the value \<open>None\<close>.
\<close>

partial_function (option) find_first_fit_loop ::
  "memory \<Rightarrow> size_t \<Rightarrow> size_t \<Rightarrow> ptr \<Rightarrow> ptr option" where
  "find_first_fit_loop m sz alignment current =
     (if current = nullptr then Some nullptr
      else
        let data_start = current + HEADER_SIZE;
            padding = calc_padding data_start alignment
        in if hdr_size m current \<ge> sz + padding then Some current
           else find_first_fit_loop m sz alignment (hdr_next m current))"

definition find_first_fit ::
  "memory \<Rightarrow> FreeListAllocator \<Rightarrow> size_t \<Rightarrow> size_t \<Rightarrow> ptr option" where
  "find_first_fit m a sz alignment = find_first_fit_loop m sz alignment (f_free_list a)"

partial_function (option) find_best_fit_loop ::
  "memory \<Rightarrow> size_t \<Rightarrow> size_t \<Rightarrow> ptr \<Rightarrow> size_t \<Rightarrow> ptr \<Rightarrow> ptr option" where
  "find_best_fit_loop m sz alignment best smallest_suitable current =
     (if current = nullptr then Some best
      else
        let data_start = current + HEADER_SIZE;
            padding = calc_padding data_start alignment;
            required = sz + padding
        in if hdr_size m current \<ge> required \<and> hdr_size m current < smallest_suitable
           then (if hdr_size m current = required then Some current
                 else find_best_fit_loop m sz alignment current (hdr_size m current)
                        (hdr_next m current))
           else find_best_fit_loop m sz alignment best smallest_suitable (hdr_next m current))"

definition find_best_fit ::
  "memory \<Rightarrow> FreeListAllocator \<Rightarrow> size_t \<Rightarrow> size_t \<Rightarrow> ptr option" where
  "find_best_fit m a sz alignment =
     find_best_fit_loop m sz alignment nullptr (- 1) (f_free_list a)"

partial_function (option) find_worst_fit_loop ::
  "memory \<Rightarrow> size_t \<Rightarrow> size_t \<Rightarrow> ptr \<Rightarrow> size_t \<Rightarrow> ptr \<Rightarrow> ptr option" where
  "find_worst_fit_loop m sz alignment worst largest_suitable current =
     (if current = nullptr then Some worst
      else
        let data_start = current + HEADER_SIZE;
            padding = calc_padding data_start alignment;
            required = sz + padding
        in if hdr_size m current \<ge> required \<and> hdr_size m current > largest_suitable
           then find_worst_fit_loop m sz alignment current (hdr_size m current)
                  (hdr_next m current)
           else find_worst_fit_loop m sz alignment worst largest_suitable
                  (hdr_next m current))"

definition find_worst_fit ::
  "memory \<Rightarrow> FreeListAllocator \<Rightarrow> size_t \<Rightarrow> size_t \<Rightarrow> ptr option" where
  "find_worst_fit m a sz alignment =
     find_worst_fit_loop m sz alignment nullptr 0 (f_free_list a)"

definition split_block :: "memory \<Rightarrow> ptr \<Rightarrow> size_t \<Rightarrow> size_t \<Rightarrow> memory" where
  "split_block m block sz padding =
     (let remaining = hdr_size m block - sz - padding - HEADER_SIZE;
          new_block = block + HEADER_SIZE + padding + sz;
          m1 = set_size m new_block remaining;
          m2 = set_is_free m1 new_block True;
          m3 = set_padding m2 new_block 0;
          m4 = set_size m3 block (padding + sz);
          m5 = set_next m4 new_block (hdr_next m4 block)
      in set_next m5 block new_block)"

definition insert_free_block ::
  "memory \<Rightarrow> FreeListAllocator \<Rightarrow> ptr \<Rightarrow> memory \<times> FreeListAllocator" where
  "insert_free_block m a block =
     (set_next m block (f_free_list a), a\<lparr>f_free_list := block\<rparr>)"

partial_function (option) remove_free_block_loop ::
  "memory \<Rightarrow> ptr \<Rightarrow> ptr \<Rightarrow> ptr option" where
  "remove_free_block_loop m block current =
     (if current \<noteq> nullptr \<and> hdr_next m current \<noteq> block
      then remove_free_block_loop m block (hdr_next m current)
      else Some current)"

definition remove_free_block ::
  "memory \<Rightarrow> FreeListAllocator \<Rightarrow> ptr \<Rightarrow> (memory \<times> FreeListAllocator) option" where
  "remove_free_block m a block =
     (if f_free_list a = block then Some (m, a\<lparr>f_free_list := hdr_next m block\<rparr>)
      else case remove_free_block_loop m block (f_free_list a) of
        None \<Rightarrow> None
      | Some current \<Rightarrow>
          if current \<noteq> nullptr then Some (set_next m current (hdr_next m block), a)
          else Some (m, a))"

partial_function (option) coalesce_loop :: "memory \<Rightarrow> ptr \<Rightarrow> memory option" where
  "coalesce_loop m current =
     (if current \<noteq> nullptr \<and> hdr_next m current \<noteq> nullptr
      then
        let next = hdr_next m current;
            current_end = current + HEADER_SIZE + hdr_size m current
        in if current_end = next
           then
             let m1 = set_size m current (hdr_size m current + (HEADER_SIZE + hdr_size m next));
                 m2 = set_next m1 current (hdr_next m1 next)
             in coalesce_loop m2 current
           else coalesce_loop m (hdr_next m current)
      else Some m)"

definition coalesce :: "memory \<Rightarrow> FreeListAllocator \<Rightarrow> memory option" where
  "coalesce m a = coalesce_loop m (f_free_list a)"

definition find_block ::
  "memory \<Rightarrow> FreeListAllocator \<Rightarrow> size_t \<Rightarrow> size_t \<Rightarrow> ptr option" where
  "find_block m a sz alignment =
     (case f_strategy a of
        FirstFit \<Rightarrow> find_first_fit m a sz alignment
      | BestFit \<Rightarrow> find_best_fit m a sz alignment
      | WorstFit \<Rightarrow> find_worst_fit m a sz alignment)"

text \<open>
  \<open>allocate\<close> returns the pointer, the memory and the allocator; \<open>None\<close> when one
  of its list walks does not return.
\<close>

definition heap_allocate ::
  "memory \<Rightarrow> FreeListAllocator \<Rightarrow> size_t \<Rightarrow> size_t
     \<Rightarrow> (ptr \<times> memory \<times> FreeListAllocator) option" where
  "heap_allocate m a sz0 alignment =
     (if sz0 = 0 then Some (nullptr, m, a)
      else
        let sz = max sz0 MIN_BLOCK_SIZE
        in case find_block m a sz alignment of
             None \<Rightarrow> None
           | Some block \<Rightarrow>
               if block = nullptr then Some (nullptr, m, a)
               else
                 let data_start = block + HEADER_SIZE;
                     padding = calc_padding data_start alignment;
                     total_size = padding + sz;
                     m1 = (if hdr_size m block \<ge> total_size + HEADER_SIZE + MIN_BLOCK_SIZE
                           then split_block m block sz padding else m)
                 in case remove_free_block m1 a block of
                      None \<Rightarrow> None
                    | Some (m2, a2) \<Rightarrow>
                        let m3 = set_is_free m2 block False;
                            m4 = set_padding m3 block (ucast padding);
                            a3 = a2\<lparr>f_used := f_used a2 + (HEADER_SIZE + hdr_size m4 block)\<rparr>
                        in Some (block + HEADER_SIZE + padding, m4, a3))"

text \<open>
  The header search of \<open>deallocate\<close>: \<open>offset\<close> runs from \<open>HEADER_SIZE\<close> to
  \<open>HEADER_SIZE + alignof(std::max_align_t)\<close>; the result is \<open>block\<close> when the
  loop ends (null when no candidate matched).
\<close>

function scan_header :: "memory \<Rightarrow> ptr \<Rightarrow> ptr \<Rightarrow> size_t \<Rightarrow> ptr" where
  "scan_header m base data offset =
     (if offset \<le> HEADER_SIZE + MAX_ALIGN
      then
        let candidate = data - offset
        in if candidate \<ge> base \<and> \<not> hdr_is_free m candidate
              \<and> ucast (hdr_padding m candidate) = offset - HEADER_SIZE
           then candidate
           else scan_header m base data (offset + 1)
      else nullptr)"
  by pat_completeness auto
termination
proof (relation "measure (\<lambda>(m, base, data, offset). 41 - unat offset)")
  show "wf (measure (\<lambda>(m, base, data, offset). 41 - unat offset))"
    by simp
next
  fix m :: memory and base data offset x :: ptr
  assume le: "offset \<le> HEADER_SIZE + MAX_ALIGN"
  then have "unat offset \<le> 40"
    by (simp add: HEADER_SIZE_def MAX_ALIGN_def word_le_nat_alt)
  moreover from this have "unat (offset + 1) = unat offset + 1"
    by (simp add: unat_word_ariths)
  ultimately show "((m, base, data, offset + 1), (m, base, data, offset))
      \<in> measure (\<lambda>(m, base, data, offset). 41 - unat offset)"
    by simp
qed

declare scan_header.simps [simp del]

definition heap_deallocate ::
  "memory \<Rightarrow> FreeListAllocator \<Rightarrow> ptr \<Rightarrow> (memory \<times> FreeListAllocator) option" where
  "heap_deallocate m a p =
     (if p = nullptr then Some (m, a)
      else
        let data = p;
            found = scan_header m (f_memory a) data HEADER_SIZE;
            block = (if found = nullptr then data - HEADER_SIZE else found);
            a1 = a\<lparr>f_used := f_used a - (HEADER_SIZE + hdr_size m block)\<rparr>;
            m1 = set_is_free m block True;
            (m2, a2) = insert_free_block m1 a1 block
        in case coalesce m2 a2 of None \<Rightarrow> None | Some m3 \<Rightarrow> Some (m3, a2))"

definition heap_reset :: "memory \<Rightarrow> FreeListAllocator \<Rightarrow> memory \<times> FreeListAllocator" where
  "heap_reset m a = (if f_size a > HEADER_SIZE then heap_init m a else (m, a))"

definition heap_total_size :: "FreeListAllocator \<Rightarrow> size_t" where
  "heap_total_size a = f_size a"

definition heap_used_size :: "FreeListAllocator \<Rightarrow> size_t" where
  "heap_used_size a = f_used a"

section \<open>Notions used to state the properties\<close>




subsection \<open>Example states\<close>

text \<open>A zero-filled memory, as a fresh or cleared buffer is.\<close>

definition zero_memory :: memory where
  "zero_memory = (\<lambda>_. 0)"

text \<open>
  A 1024-byte bump arena at address 4096 after \<open>allocate(100, 1)\<close> and
  \<open>allocate(200, 16)\<close>.
\<close>

definition ex_stack :: StackAllocator where
  "ex_stack = snd (stack_allocate_all (stack_new 4096 1024) [(100, 1), (200, 16)])"

text \<open>
  The owning pool of three chunks of requested size 10, alignment 64, on
  \<open>zero_memory\<close>, when \<open>operator new\<close> returned 4100: the base is 4160 and the
  chunks are at 4160, 4224 and 4288.
\<close>

definition ex_pool_mem :: memory where
  "ex_pool_mem = store64 (store64 (store64 zero_memory 4160 4224) 4224 4288) 4288 nullptr"

definition ex_pool :: PoolAllocator where
  "ex_pool = \<lparr>p_memory = 4160, p_memory_size = 192, p_chunk_size = 64, p_chunk_count = 3,
     p_free_count = 3, p_alignment = 64, p_free_list = 4160, p_owns_memory = True\<rparr>"

text \<open>
  A heap over a zero-filled buffer of 1024 bytes at address 4096 with the first-fit
  strategy: after construction (\<open>ex_heap_m0\<close>, \<open>ex_heap_a0\<close>), after
  \<open>allocate(10, 32)\<close>, which returns 4128 (\<open>ex_heap_m1\<close>, \<open>ex_heap_a1\<close>), and
  after \<open>deallocate(4128)\<close> (\<open>ex_heap_m2\<close>, \<open>ex_heap_a2\<close>).
\<close>

definition ex_heap_m0 :: memory where
  "ex_heap_m0 =
     set_padding (set_is_free (set_next (set_size zero_memory 4096 1000) 4096 nullptr) 4096 True)
       4096 0"

definition ex_heap_a0 :: FreeListAllocator where
  "ex_heap_a0 = \<lparr>f_memory = 4096, f_size = 1024, f_used = 0, f_strategy = FirstFit,
     f_free_list = 4096, f_owns_memory = False\<rparr>"

definition ex_heap_m1 :: memory where
  "ex_heap_m1 = set_padding (set_is_free (split_block ex_heap_m0 4096 10 8) 4096 False) 4096 8"

definition ex_heap_a1 :: FreeListAllocator where
  "ex_heap_a1 = ex_heap_a0\<lparr>f_free_list := 4138, f_used := 42\<rparr>"

definition ex_heap_m2 :: memory where
  "ex_heap_m2 = set_next (set_is_free ex_heap_m1 4104 True) 4104 4138"

definition ex_heap_a2 :: FreeListAllocator where
  "ex_heap_a2 = ex_heap_a1\<lparr>f_used := 18446744073709547496, f_free_list := 4104\<rparr>"

subsection \<open>Blocks of the heap in address order\<close>

text \<open>
  The blocks of the region from address \<open>a\<close> up to the end \<open>e\<close>: a header at
  \<open>a\<close>, its payload of \<open>size\<close> bytes, then the next header. \<open>None\<close> when a
  header or a payload would cross \<open>e\<close>, that is, when the blocks do not tile the
  region.
\<close>

function heap_blocks :: "memory \<Rightarrow> nat \<Rightarrow> nat \<Rightarrow> nat list option" where
  "heap_blocks m a e =
     (if a \<ge> e then (if a = e then Some [] else None)
      else
        case heap_blocks m (a + 24 + unat (load64 m a)) e of
          None \<Rightarrow> None
        | Some bs \<Rightarrow> Some (a # bs))"
  by pat_completeness auto
termination
  by (relation "measure (\<lambda>(m, a, e). e - a)") auto

definition block_bytes :: "memory \<Rightarrow> nat \<Rightarrow> nat" where
  "block_bytes m b = 24 + unat (load64 m b)"

definition block_is_free :: "memory \<Rightarrow> nat \<Rightarrow> bool" where
  "block_is_free m b \<longleftrightarrow> m (b + 16) \<noteq> 0"

text \<open>
  H1 and H5 of the specification: the blocks tile the region, their sizes with
  headers add up to the capacity, and \<open>used_size\<close> is the sum over the blocks that
  are not free.
\<close>

definition heap_invariant :: "memory \<Rightarrow> FreeListAllocator \<Rightarrow> bool" where
  "heap_invariant m a =
     (case heap_blocks m (unat (f_memory a)) (unat (f_memory a) + unat (f_size a)) of
        None \<Rightarrow> False
      | Some bs \<Rightarrow>
          sum_list (map (block_bytes m) bs) = unat (heap_total_size a)
          \<and> unat (heap_used_size a)
              = sum_list (map (block_bytes m) (filter (\<lambda>b. \<not> block_is_free m b) bs)))"

subsection \<open>Clients of the pool\<close>




text \<open>The chunk addresses of a pool: \<open>base + i * chunk_size\<close> for \<open>i < chunk_count\<close>.\<close>

definition pool_slots :: "PoolAllocator \<Rightarrow> ptr set" where
  "pool_slots a =
     (\<lambda>i. p_memory a + p_chunk_size a * of_nat i) ` {i. i < unat (p_chunk_count a)}"

text \<open>
  The region of a pool lies in the address space: chunks hold a pointer, the base of
  a pool with chunks is not null, and \<open>base + chunk_count * chunk_size\<close> does not
  wrap.
\<close>

definition pool_geometry :: "PoolAllocator \<Rightarrow> bool" where
  "pool_geometry a \<longleftrightarrow>
     8 \<le> unat (p_chunk_size a)
     \<and> (p_chunk_count a \<noteq> 0 \<longrightarrow> p_memory a \<noteq> nullptr)
     \<and> unat (p_memory a) + unat (p_chunk_size a) * unat (p_chunk_count a) \<le> 2 ^ 64"




subsection \<open>Clients of the heap\<close>

datatype heap_op = HAllocate size_t size_t | HDeallocate ptr | HReset

text \<open>
  A run of heap operations, each on the state the previous one left; the result lists
  what each \<open>allocate\<close> returned. \<open>None\<close> when an operation does not return.
\<close>

fun heap_run ::
  "memory \<Rightarrow> FreeListAllocator \<Rightarrow> heap_op list
     \<Rightarrow> (ptr list \<times> memory \<times> FreeListAllocator) option" where
  "heap_run m a [] = Some ([], m, a)"
| "heap_run m a (HAllocate sz al # ops) =
     (case heap_allocate m a sz al of
        None \<Rightarrow> None
      | Some (p, m', a') \<Rightarrow>
          (case heap_run m' a' ops of
             None \<Rightarrow> None
           | Some (ps, r) \<Rightarrow> Some (p # ps, r)))"
| "heap_run m a (HDeallocate p # ops) =
     (case heap_deallocate m a p of
        None \<Rightarrow> None
      | Some (m', a') \<Rightarrow> heap_run m' a' ops)"
| "heap_run m a (HReset # ops) =
     (let (m', a') = heap_reset m a in heap_run m' a' ops)"

text \<open>
  The free list between two pointers: \<open>heap_path m p xs q\<close> when following the
  \<open>next\<close> links from \<open>p\<close> visits the non-null blocks \<open>xs\<close> in order and then
  reaches \<open>q\<close>. The whole free list of an allocator is the path from its head to
  null.
\<close>

primrec heap_path :: "memory \<Rightarrow> ptr \<Rightarrow> ptr list \<Rightarrow> ptr \<Rightarrow> bool" where
  "heap_path m p [] q \<longleftrightarrow> p = q"
| "heap_path m p (x # xs) q \<longleftrightarrow> p = x \<and> x \<noteq> nullptr \<and> heap_path m (hdr_next m x) xs q"

text \<open>
  A block fits a request when its size is at least the requested size plus the
  padding that aligns its payload, computed as the scans compute it; the fit is exact
  when the two are equal.
\<close>

definition fits :: "memory \<Rightarrow> size_t \<Rightarrow> size_t \<Rightarrow> ptr \<Rightarrow> bool" where
  "fits m sz al b \<longleftrightarrow> sz + calc_padding (b + HEADER_SIZE) al \<le> hdr_size m b"

definition exact_fit :: "memory \<Rightarrow> size_t \<Rightarrow> size_t \<Rightarrow> ptr \<Rightarrow> bool" where
  "exact_fit m sz al b \<longleftrightarrow> hdr_size m b = sz + calc_padding (b + HEADER_SIZE) al"

text \<open>
  What each scan chooses on a free list \<open>xs\<close>, in terms of the list order. First
  fit: the first block that fits. Best fit: a fitting block that is strictly smaller
  than every fitting block before it, and either an exact fit or no larger than any
  fitting block after it. Worst fit: a fitting block strictly larger than every
  fitting block before it and at least as large as every fitting block after it.
  Each scan returns null only when no block can be chosen: best fit never takes a
  block of size \<open>SIZE_MAX\<close>, worst fit never one of size 0.
\<close>

definition first_choice :: "memory \<Rightarrow> size_t \<Rightarrow> size_t \<Rightarrow> ptr list \<Rightarrow> ptr \<Rightarrow> bool" where
  "first_choice m sz al xs r \<longleftrightarrow>
     (r = nullptr \<and> (\<forall>x \<in> set xs. \<not> fits m sz al x))
     \<or> (\<exists>pre post. xs = pre @ r # post \<and> fits m sz al r
            \<and> (\<forall>x \<in> set pre. \<not> fits m sz al x))"

definition best_choice :: "memory \<Rightarrow> size_t \<Rightarrow> size_t \<Rightarrow> ptr list \<Rightarrow> ptr \<Rightarrow> bool" where
  "best_choice m sz al xs r \<longleftrightarrow>
     (r = nullptr \<and> (\<forall>x \<in> set xs. fits m sz al x \<longrightarrow> hdr_size m x = - 1))
     \<or> (\<exists>pre post. xs = pre @ r # post \<and> fits m sz al r
            \<and> (\<forall>x \<in> set pre. fits m sz al x \<longrightarrow> hdr_size m r < hdr_size m x)
            \<and> (exact_fit m sz al r
                 \<or> (\<forall>x \<in> set post. fits m sz al x \<longrightarrow> hdr_size m r \<le> hdr_size m x)))"

definition worst_choice :: "memory \<Rightarrow> size_t \<Rightarrow> size_t \<Rightarrow> ptr list \<Rightarrow> ptr \<Rightarrow> bool" where
  "worst_choice m sz al xs r \<longleftrightarrow>
     (r = nullptr \<and> (\<forall>x \<in> set xs. fits m sz al x \<longrightarrow> hdr_size m x = 0))
     \<or> (\<exists>pre post. xs = pre @ r # post \<and> fits m sz al r
            \<and> (\<forall>x \<in> set pre. fits m sz al x \<longrightarrow> hdr_size m x < hdr_size m r)
            \<and> (\<forall>x \<in> set post. fits m sz al x \<longrightarrow> hdr_size m x \<le> hdr_size m r))"

text \<open>
  Where the best-fit scan stops early: at a block \<open>b\<close>, reached through the blocks
  \<open>pre\<close>, that is an exact fit and strictly smaller than every fitting block of
  \<open>pre\<close> (and not of size \<open>SIZE_MAX\<close>).
\<close>

definition best_stop :: "memory \<Rightarrow> size_t \<Rightarrow> size_t \<Rightarrow> ptr list \<Rightarrow> ptr \<Rightarrow> bool" where
  "best_stop m sz al pre b \<longleftrightarrow>
     exact_fit m sz al b \<and> hdr_size m b < - 1
     \<and> (\<forall>x \<in> set pre. fits m sz al x \<longrightarrow> hdr_size m b < hdr_size m x)"

subsection \<open>Example states of the heap\<close>

text \<open>
  A first-fit heap over a zero-filled buffer of 472 bytes at 4096. Allocating 120,
  200 and 80 bytes (alignment 1) uses it up; deallocating the three blocks in the
  same order gives \<open>ex_fit_m6\<close>, \<open>ex_fit_a6\<close>, whose free list holds the blocks
  at 4464, 4240 and 4096, of sizes 80, 200 and 120. Allocating 100 bytes then gives
  \<open>ex_fit_m7\<close>, \<open>ex_fit_a7\<close>.
\<close>

definition ex_fit_m0 :: memory where
  "ex_fit_m0 =
     set_padding (set_is_free (set_next (set_size zero_memory 4096 448) 4096 nullptr) 4096 True)
       4096 0"

definition ex_fit_a0 :: FreeListAllocator where
  "ex_fit_a0 =
     \<lparr>f_memory = 4096, f_size = 472, f_used = 0, f_strategy = FirstFit,
     f_free_list = 4096, f_owns_memory = False\<rparr>"

definition ex_fit_m1 :: memory where
  "ex_fit_m1 =
     set_padding (set_is_free (set_next (set_next (set_size (set_padding (set_is_free (set_size ex_fit_m0
          4240 304) 4240 True) 4240 0) 4096 120) 4240 nullptr) 4096 4240) 4096 False) 4096 0"

definition ex_fit_a1 :: FreeListAllocator where
  "ex_fit_a1 =
     \<lparr>f_memory = 4096, f_size = 472, f_used = 144, f_strategy = FirstFit,
     f_free_list = 4240, f_owns_memory = False\<rparr>"

definition ex_fit_m2 :: memory where
  "ex_fit_m2 =
     set_padding (set_is_free (set_next (set_next (set_size (set_padding (set_is_free (set_size ex_fit_m1
          4464 80) 4464 True) 4464 0) 4240 200) 4464 nullptr) 4240 4464) 4240 False) 4240 0"

definition ex_fit_a2 :: FreeListAllocator where
  "ex_fit_a2 =
     \<lparr>f_memory = 4096, f_size = 472, f_used = 368, f_strategy = FirstFit,
     f_free_list = 4464, f_owns_memory = False\<rparr>"

definition ex_fit_m3 :: memory where
  "ex_fit_m3 =
     set_padding (set_is_free ex_fit_m2 4464 False) 4464 0"

definition ex_fit_a3 :: FreeListAllocator where
  "ex_fit_a3 =
     \<lparr>f_memory = 4096, f_size = 472, f_used = 472, f_strategy = FirstFit,
     f_free_list = nullptr, f_owns_memory = False\<rparr>"

definition ex_fit_m4 :: memory where
  "ex_fit_m4 =
     set_next (set_is_free ex_fit_m3 4096 True) 4096 nullptr"

definition ex_fit_a4 :: FreeListAllocator where
  "ex_fit_a4 =
     \<lparr>f_memory = 4096, f_size = 472, f_used = 328, f_strategy = FirstFit,
     f_free_list = 4096, f_owns_memory = False\<rparr>"

definition ex_fit_m5 :: memory where
  "ex_fit_m5 =
     set_next (set_is_free ex_fit_m4 4240 True) 4240 4096"

definition ex_fit_a5 :: FreeListAllocator where
  "ex_fit_a5 =
     \<lparr>f_memory = 4096, f_size = 472, f_used = 104, f_strategy = FirstFit,
     f_free_list = 4240, f_owns_memory = False\<rparr>"

definition ex_fit_m6 :: memory where
  "ex_fit_m6 =
     set_next (set_is_free ex_fit_m5 4464 True) 4464 4240"

definition ex_fit_a6 :: FreeListAllocator where
  "ex_fit_a6 =
     \<lparr>f_memory = 4096, f_size = 472, f_used = 0, f_strategy = FirstFit,
     f_free_list = 4464, f_owns_memory = False\<rparr>"

definition ex_fit_m7 :: memory where
  "ex_fit_m7 =
     set_padding (set_is_free (set_next (set_next (set_next (set_size (set_padding (set_is_free (set_size ex_fit_m6
          4364 76) 4364 True) 4364 0) 4240 100) 4364 4096) 4240 4364) 4464 4364) 4240 False) 4240 0"

definition ex_fit_a7 :: FreeListAllocator where
  "ex_fit_a7 =
     \<lparr>f_memory = 4096, f_size = 472, f_used = 124, f_strategy = FirstFit,
     f_free_list = 4464, f_owns_memory = False\<rparr>"

text \<open>
  A best-fit heap over a zero-filled buffer of 136 bytes at 4104. Allocating 24, 16
  and 24 bytes (alignment 1) uses it up; deallocating the second, the third and the
  first block gives \<open>ex_pad_m6\<close>, \<open>ex_pad_a6\<close>, whose free list holds the blocks
  at 4104, 4192 and 4152, of sizes 24, 24 and 16. Their payloads start at 4128,
  4216 and 4176: the second one needs 8 bytes of padding for alignment 16.
\<close>

definition ex_pad_m0 :: memory where
  "ex_pad_m0 =
     set_padding (set_is_free (set_next (set_size zero_memory 4104 112) 4104 nullptr) 4104 True)
       4104 0"

definition ex_pad_a0 :: FreeListAllocator where
  "ex_pad_a0 =
     \<lparr>f_memory = 4104, f_size = 136, f_used = 0, f_strategy = BestFit,
     f_free_list = 4104, f_owns_memory = False\<rparr>"

definition ex_pad_m1 :: memory where
  "ex_pad_m1 =
     set_padding (set_is_free (set_next (set_next (set_size (set_padding (set_is_free (set_size ex_pad_m0
          4152 64) 4152 True) 4152 0) 4104 24) 4152 nullptr) 4104 4152) 4104 False) 4104 0"

definition ex_pad_a1 :: FreeListAllocator where
  "ex_pad_a1 =
     \<lparr>f_memory = 4104, f_size = 136, f_used = 48, f_strategy = BestFit,
     f_free_list = 4152, f_owns_memory = False\<rparr>"

definition ex_pad_m2 :: memory where
  "ex_pad_m2 =
     set_padding (set_is_free (set_next (set_next (set_size (set_padding (set_is_free (set_size ex_pad_m1
          4192 24) 4192 True) 4192 0) 4152 16) 4192 nullptr) 4152 4192) 4152 False) 4152 0"

definition ex_pad_a2 :: FreeListAllocator where
  "ex_pad_a2 =
     \<lparr>f_memory = 4104, f_size = 136, f_used = 88, f_strategy = BestFit,
     f_free_list = 4192, f_owns_memory = False\<rparr>"

definition ex_pad_m3 :: memory where
  "ex_pad_m3 =
     set_padding (set_is_free ex_pad_m2 4192 False) 4192 0"

definition ex_pad_a3 :: FreeListAllocator where
  "ex_pad_a3 =
     \<lparr>f_memory = 4104, f_size = 136, f_used = 136, f_strategy = BestFit,
     f_free_list = nullptr, f_owns_memory = False\<rparr>"

definition ex_pad_m4 :: memory where
  "ex_pad_m4 =
     set_next (set_is_free ex_pad_m3 4152 True) 4152 nullptr"

definition ex_pad_a4 :: FreeListAllocator where
  "ex_pad_a4 =
     \<lparr>f_memory = 4104, f_size = 136, f_used = 96, f_strategy = BestFit,
     f_free_list = 4152, f_owns_memory = False\<rparr>"

definition ex_pad_m5 :: memory where
  "ex_pad_m5 =
     set_next (set_is_free ex_pad_m4 4192 True) 4192 4152"

definition ex_pad_a5 :: FreeListAllocator where
  "ex_pad_a5 =
     \<lparr>f_memory = 4104, f_size = 136, f_used = 48, f_strategy = BestFit,
     f_free_list = 4192, f_owns_memory = False\<rparr>"

definition ex_pad_m6 :: memory where
  "ex_pad_m6 =
     set_next (set_is_free ex_pad_m5 4104 True) 4104 4192"

definition ex_pad_a6 :: FreeListAllocator where
  "ex_pad_a6 =
     \<lparr>f_memory = 4104, f_size = 136, f_used = 0, f_strategy = BestFit,
     f_free_list = 4104, f_owns_memory = False\<rparr>"

section \<open>Properties: layout arithmetic\<close>

lemma pow2_nat_aux:
  fixes n :: nat
  shows "n \<noteq> 0 \<Longrightarrow> n AND (n - 1) = 0 \<Longrightarrow> \<exists>k. n = 2 ^ k"
proof (induction n rule: less_induct)
  case (less n)
  show ?case
  proof (cases "even n")
    case True
    then obtain m where m: "n = 2 * m" by (elim evenE)
    with less.prems have m0: "m \<noteq> 0" by simp
    have "n - 1 = 2 * (m - 1) + 1" using m m0 by simp
    then have "n AND (n - 1) = 2 * (m AND (m - 1))"
      using m by (simp add: and_nat_rec [of "2 * m"] )
    with less.prems have "m AND (m - 1) = 0" by simp
    moreover have "m < n" using m m0 by simp
    ultimately obtain k where "m = 2 ^ k" using less.IH m0 by blast
    then have "n = 2 ^ Suc k" using m by simp
    then show ?thesis by blast
  next
    case False
    then obtain m where m: "n = 2 * m + 1" by (elim oddE)
    then have "n AND (n - 1) = 2 * m"
      by (subst and_nat_rec) simp
    with less.prems have "m = 0" by simp
    then have "n = 2 ^ 0" using m by simp
    then show ?thesis by blast
  qed
qed

lemma is_power_of_two_exp:
  assumes "is_power_of_two A"
  shows "\<exists>k<64. A = 2 ^ k"
proof -
  from assms have A0: "A \<noteq> 0" and AA: "A AND (A - 1) = 0"
    by (simp_all add: is_power_of_two_def)
  have u1: "unat (A - 1) = unat A - 1"
    using A0 by (simp add: unat_minus_one)
  have "unat (A AND (A - 1)) = unat A AND (unat A - 1)"
    by (simp add: unsigned_and_eq u1)
  with AA have "unat A AND (unat A - 1) = 0" by simp
  moreover have "unat A \<noteq> 0" using A0 by (simp add: unat_eq_0)
  ultimately obtain k where k: "unat A = 2 ^ k" using pow2_nat_aux by blast
  have "unat A < 2 ^ 64" using unsigned_less [of A] by simp
  with k have "(2::nat) ^ k < 2 ^ 64" by simp
  then have "k < 64" by (rule power_less_imp_less_exp [rotated]) simp
  moreover have "A = 2 ^ k"
  proof -
    have "A = word_of_nat (unat A)" by simp
    also have "\<dots> = 2 ^ k" by (simp only: k) simp
    finally show ?thesis .
  qed
  ultimately show ?thesis by blast
qed

lemma calc_padding_exp:
  fixes x :: size_t
  shows "calc_padding x (2 ^ k) = (2 ^ k - x mod 2 ^ k) mod 2 ^ k"
  unfolding calc_padding_def
  by (simp flip: mask_eq_exp_minus_1 take_bit_eq_mask add: take_bit_eq_mod)

text \<open>
  C9 (as amended). For every address \<open>x\<close> and every alignment \<open>A\<close> that is a power of
  two, \<open>calc_padding x A\<close> is \<open>(A - (x mod A)) mod A\<close>, both as a machine word and
  as a natural number.
\<close>

theorem calc_padding_power_of_two:
  "is_power_of_two A \<Longrightarrow>
     calc_padding x A = (A - x mod A) mod A \<and>
     unat (calc_padding x A) = (unat A - unat x mod unat A) mod unat A"
proof -
  assume p: "is_power_of_two A"
  then obtain k where A: "A = 2 ^ k" using is_power_of_two_exp by blast
  have w: "calc_padding x A = (A - x mod A) mod A"
    unfolding A by (rule calc_padding_exp)
  have "0 < A"
    using p by (simp add: is_power_of_two_def word_neq_0_conv)
  then have "x mod A < A"
    by (rule word_mod_less_divisor)
  then have "x mod A \<le> A"
    by simp
  then have "unat (A - x mod A) = unat A - unat (x mod A)"
    by (rule unat_sub)
  then have "unat ((A - x mod A) mod A) = (unat A - unat x mod unat A) mod unat A"
    by (simp add: unat_mod_distrib)
  with w show ?thesis by simp
qed

theorem calc_padding_power_of_two_witness:
  "is_power_of_two 8 \<and> calc_padding 9 8 = (8 - 9 mod 8) mod 8
   \<and> unat (calc_padding 9 8)
       = (unat (8 :: size_t) - unat (9 :: size_t) mod unat (8 :: size_t)) mod unat (8 :: size_t)"
proof -
  have h: "is_power_of_two 8" by (simp add: is_power_of_two_def)
  show ?thesis using h calc_padding_power_of_two [OF h, of 9] by simp
qed

text \<open>
  C9 as stated (every \<open>A \<ge> 1\<close>) fails: at \<open>x = 2\<close>, \<open>A = 3\<close> the bit masks give 0
  where \<open>(A - (x mod A)) mod A\<close> is 1.
\<close>

theorem calc_padding_counterexample:
  "calc_padding 2 3 \<noteq> (3 - 2 mod 3) mod 3
   \<and> unat (calc_padding 2 3)
       \<noteq> (unat (3 :: size_t) - unat (2 :: size_t) mod unat (3 :: size_t)) mod unat (3 :: size_t)"
  by (simp add: calc_padding_def)

section \<open>Properties: bump engine\<close>

lemma stack_allocate_size [simp]: "s_size (snd (stack_allocate a sz al)) = s_size a"
  by (simp add: stack_allocate_def Let_def)

lemma stack_allocate_all_size [simp]: "s_size (snd (stack_allocate_all a rs)) = s_size a"
proof (induction rs arbitrary: a)
  case Nil
  show ?case by simp
next
  case (Cons r rs)
  obtain sz al where r: "r = (sz, al)" by (cases r)
  show ?case
    using Cons.IH [of "snd (stack_allocate a sz al)"]
    by (simp add: r split_beta Let_def)
qed

lemma ex_stack_eq:
  "ex_stack = \<lparr>s_memory = 4096, s_size = 1024, s_offset = 312, s_owns_memory = True\<rparr>"
  by (simp add: ex_stack_def stack_new_def stack_allocate_def calc_padding_def)

text \<open>
  C8. Take the marker of any bump allocator, run any list of allocation requests,
  and roll back to the marker: if the marker is at most the cursor at that moment
  (the assertion of \<open>rollback\<close>), the rollback returns, and the cursor,
  \<open>used_size\<close> and \<open>free_size\<close> are what they were when the marker was taken.
\<close>

theorem stack_rollback_restores:
  "stack_get_marker a \<le> s_offset (snd (stack_allocate_all a rs)) \<Longrightarrow>
     (case stack_rollback (snd (stack_allocate_all a rs)) (stack_get_marker a) of
        None \<Rightarrow> False
      | Some a' \<Rightarrow>
          s_offset a' = s_offset a \<and> stack_used_size a' = stack_used_size a
          \<and> stack_free_size a' = stack_free_size a)"
  by (simp add: stack_rollback_def stack_get_marker_def stack_used_size_def stack_free_size_def)

theorem stack_rollback_restores_witness:
  "stack_get_marker ex_stack \<le> s_offset (snd (stack_allocate_all ex_stack [(300, 16)]))
   \<and> stack_get_marker ex_stack = 312
   \<and> s_offset (snd (stack_allocate_all ex_stack [(300, 16)])) = 620
   \<and> (case stack_rollback (snd (stack_allocate_all ex_stack [(300, 16)]))
              (stack_get_marker ex_stack) of
        None \<Rightarrow> False
      | Some a' \<Rightarrow>
          s_offset a' = 312 \<and> stack_used_size a' = stack_used_size ex_stack
          \<and> stack_free_size a' = stack_free_size ex_stack)"
proof -
  have h: "stack_get_marker ex_stack \<le> s_offset (snd (stack_allocate_all ex_stack [(300, 16)]))"
    by (simp add: ex_stack_eq stack_get_marker_def stack_allocate_def calc_padding_def)
  show ?thesis
    using h stack_rollback_restores [OF h]
    by (simp add: ex_stack_eq stack_get_marker_def stack_allocate_def calc_padding_def
        split: option.splits)
qed

text \<open>
  C1 at a request whose size wraps the bounds check. A 16-byte arena at 4096 has
  served \<open>allocate(8, 1)\<close> (bytes 4096 to 4103, cursor 8). For
  \<open>allocate(2^64 - 4, 1)\<close> the padding is 0 and cursor + pad + size exceeds the
  capacity, yet the 64-bit sum wraps to 4, the check passes, and the call returns the
  non-null 4104 and moves the cursor back to 4. The next \<open>allocate(8, 1)\<close> returns
  4100: its bytes 4100 to 4107 overlap the first allocation.
\<close>

theorem stack_allocate_wraps:
  "stack_allocate (stack_new 4096 16) 8 1
     = (4096, \<lparr>s_memory = 4096, s_size = 16, s_offset = 8, s_owns_memory = True\<rparr>)
   \<and> unat (8 :: size_t) + unat (calc_padding (4096 + 8) 1)
         + unat (18446744073709551612 :: size_t) > unat (16 :: size_t)
   \<and> stack_allocate \<lparr>s_memory = 4096, s_size = 16, s_offset = 8, s_owns_memory = True\<rparr>
        18446744073709551612 1
     = (4104, \<lparr>s_memory = 4096, s_size = 16, s_offset = 4, s_owns_memory = True\<rparr>)
   \<and> stack_allocate \<lparr>s_memory = 4096, s_size = 16, s_offset = 4, s_owns_memory = True\<rparr> 8 1
     = (4100, \<lparr>s_memory = 4096, s_size = 16, s_offset = 12, s_owns_memory = True\<rparr>)"
  by (simp add: stack_new_def stack_allocate_def calc_padding_def)

section \<open>Properties: memory\<close>

lemma bit_le_bytes:
  "bit (le_bytes bs) k \<longleftrightarrow> k < 64 \<and> k div 8 < length bs \<and> bit (bs ! (k div 8)) (k mod 8)"
proof (induction bs arbitrary: k)
  case Nil
  then show ?case by simp
next
  case (Cons b bs)
  show ?case
  proof (cases "k < 8")
    case True
    then show ?thesis by (simp add: bit_simps)
  next
    case False
    then have k: "8 \<le> k" by simp
    then have d: "k div 8 = Suc ((k - 8) div 8)" and m: "k mod 8 = (k - 8) mod 8"
      by (simp_all add: le_div_geq le_mod_geq)
    show ?thesis
      using k by (auto simp add: bit_simps Cons.IH d m dest: bit_imp_le_length)
  qed
qed

lemma store64_inside: "i < 8 \<Longrightarrow> store64 m a v (a + i) = ucast (drop_bit (8 * i) v)"
  by (simp add: store64_def)

lemma bit_bytes_of:
  assumes "q < 8" "r < 8"
  shows "bit ([ucast v, ucast (drop_bit 8 v), ucast (drop_bit 16 v), ucast (drop_bit 24 v),
      ucast (drop_bit 32 v), ucast (drop_bit 40 v), ucast (drop_bit 48 v),
      ucast (drop_bit 56 v) :: 8 word] ! q) r = bit (v :: 64 word) (8 * q + r)"
proof -
  from assms(1) consider "q = 0" | "q = 1" | "q = 2" | "q = 3"
    | "q = 4" | "q = 5" | "q = 6" | "q = 7"
    by linarith
  then show ?thesis
    using assms(2) by cases (simp_all add: bit_simps add.commute)
qed

lemma load64_store64_bytes:
  "load64 (store64 m a v) a =
     le_bytes [ucast v, ucast (drop_bit 8 v), ucast (drop_bit 16 v), ucast (drop_bit 24 v),
       ucast (drop_bit 32 v), ucast (drop_bit 40 v), ucast (drop_bit 48 v),
       ucast (drop_bit 56 v)]"
  unfolding load64_def
  using store64_inside [of 0 m a v] store64_inside [of 1 m a v] store64_inside [of 2 m a v]
    store64_inside [of 3 m a v] store64_inside [of 4 m a v] store64_inside [of 5 m a v]
    store64_inside [of 6 m a v] store64_inside [of 7 m a v]
  by (simp del: le_bytes.simps)

lemma load64_store64_same [simp]: "load64 (store64 m a v) a = v"
proof (rule bit_word_eqI)
  fix k :: nat
  assume "k < LENGTH(64)"
  then have k: "k < 64" by simp
  then have d: "k div 8 < 8" by simp
  have "bit (load64 (store64 m a v) a) k = bit v (8 * (k div 8) + k mod 8)"
    using k d by (simp add: load64_store64_bytes bit_le_bytes bit_bytes_of
        del: mult_div_mod_eq le_bytes.simps)
  then show "bit (load64 (store64 m a v) a) k = bit v k"
    by simp
qed

lemma store64_outside: "x < a \<or> a + 8 \<le> x \<Longrightarrow> store64 m a v x = m x"
  by (auto simp: store64_def)

lemma load64_store64_disjoint:
  "b + 8 \<le> a \<or> a + 8 \<le> b \<Longrightarrow> load64 (store64 m a v) b = load64 m b"
  by (auto simp: load64_def store64_outside)

lemma load64_upd_outside:
  "x < b \<or> b + 8 \<le> x \<Longrightarrow> load64 (m(x := v)) b = load64 m b"
  by (auto simp: load64_def)

lemma store64_at:
  "a \<le> x \<and> x < a + 8 \<Longrightarrow> store64 m a v x = ucast (drop_bit (8 * (x - a)) v)"
  by (simp add: store64_def)

lemma load64_zero [simp]: "load64 zero_memory a = 0"
  by (simp add: load64_def zero_memory_def)

lemma zero_memory_at [simp]: "zero_memory x = 0"
  by (simp add: zero_memory_def)

text \<open>Rules that evaluate reads of a memory built from writes at known addresses.\<close>

lemmas mem_simps = load64_store64_disjoint load64_upd_outside store64_outside store64_at

section \<open>Properties: pool engine\<close>



text \<open>
  C6. In every pool state (any memory, any allocator fields): if \<open>allocate()\<close>
  returns a non-null \<open>p\<close> and \<open>deallocate(p)\<close> follows, the next \<open>allocate()\<close>
  returns \<open>p\<close> again.
\<close>

theorem pool_lifo_reuse:
  "fst (pool_allocate m a) \<noteq> nullptr \<Longrightarrow>
     (let (p, a1) = pool_allocate m a;
          (m2, a2) = pool_deallocate m a1 p
      in fst (pool_allocate m2 a2) = p)"
  by (simp add: pool_allocate_def pool_deallocate_def Let_def split: if_splits)

theorem pool_lifo_reuse_witness:
  "fst (pool_allocate ex_pool_mem ex_pool) \<noteq> nullptr
   \<and> fst (pool_allocate ex_pool_mem ex_pool) = 4160
   \<and> (let (p, a1) = pool_allocate ex_pool_mem ex_pool;
           (m2, a2) = pool_deallocate ex_pool_mem a1 p
       in fst (pool_allocate m2 a2) = p)"
proof -
  have h: "fst (pool_allocate ex_pool_mem ex_pool) \<noteq> nullptr"
    by (simp add: pool_allocate_def ex_pool_def)
  show ?thesis
    using h pool_lifo_reuse [OF h] by (simp add: pool_allocate_def ex_pool_def)
qed

section \<open>Properties: heap engine\<close>

lemmas heap_defs = heap_new_borrowed_def heap_init_def heap_allocate_def heap_deallocate_def
  find_block_def find_first_fit_def find_best_fit_def find_worst_fit_def split_block_def
  remove_free_block_def insert_free_block_def coalesce_def
  hdr_size_def hdr_next_def hdr_is_free_def hdr_padding_def set_size_def set_next_def
  set_is_free_def set_padding_def HEADER_SIZE_def MIN_BLOCK_SIZE_def MAX_ALIGN_def
  calc_padding_def heap_used_size_def heap_total_size_def

text \<open>One round of the header search, for evaluation.\<close>

lemma scan_header_step:
  "scan_header m base data offset =
     (if offset \<le> HEADER_SIZE + MAX_ALIGN
      then
        if data - offset \<ge> base \<and> \<not> hdr_is_free m (data - offset)
             \<and> ucast (hdr_padding m (data - offset)) = offset - HEADER_SIZE
        then data - offset
        else scan_header m base data (offset + 1)
      else nullptr)"
  by (subst scan_header.simps) (simp add: Let_def)

lemmas loop_simps = find_first_fit_loop.simps find_best_fit_loop.simps
  find_worst_fit_loop.simps remove_free_block_loop.simps coalesce_loop.simps
  scan_header_step

lemmas ex_heap_defs = ex_heap_m0_def ex_heap_a0_def ex_heap_m1_def ex_heap_a1_def
  ex_heap_m2_def ex_heap_a2_def

lemma ex_heap_new:
  "heap_new_borrowed zero_memory 4096 1024 FirstFit = Some (ex_heap_m0, ex_heap_a0)"
  by (simp add: heap_new_borrowed_def heap_init_def ex_heap_defs HEADER_SIZE_def)

lemma ex_heap_allocate:
  "heap_allocate ex_heap_m0 ex_heap_a0 10 32 = Some (4128, ex_heap_m1, ex_heap_a1)"
  by (simp add: ex_heap_defs heap_defs loop_simps mem_simps Let_def)

lemma ex_heap_scan: "scan_header ex_heap_m1 4096 4128 HEADER_SIZE = 4104"
  by (simp add: ex_heap_defs heap_defs loop_simps mem_simps Let_def)

lemma ex_heap_deallocate:
  "heap_deallocate ex_heap_m1 ex_heap_a1 4128 = Some (ex_heap_m2, ex_heap_a2)"
  by (simp add: ex_heap_defs heap_defs loop_simps mem_simps Let_def)

lemma ex_heap_invariant0: "heap_invariant ex_heap_m0 ex_heap_a0"
  by (simp add: heap_invariant_def ex_heap_defs heap_defs mem_simps block_bytes_def
      block_is_free_def)

lemma ex_heap_invariant1: "heap_invariant ex_heap_m1 ex_heap_a1"
  by (simp add: heap_invariant_def ex_heap_defs heap_defs mem_simps block_bytes_def
      block_is_free_def Let_def)

lemma ex_heap_blocks2:
  "heap_blocks ex_heap_m2 4096 (4096 + 1024) = Some [4096, 4138]
   \<and> block_is_free ex_heap_m2 4096 \<and> block_is_free ex_heap_m2 4138"
  by (simp add: ex_heap_defs heap_defs mem_simps block_is_free_def Let_def)

lemma ex_heap_invariant2: "\<not> heap_invariant ex_heap_m2 ex_heap_a2"
  by (simp add: heap_invariant_def ex_heap_defs heap_defs mem_simps block_bytes_def
      block_is_free_def Let_def)

text \<open>
  C2 on a zero-filled buffer of 1024 bytes at 4096. The invariant (blocks tile the
  region, \<open>used_size\<close> is the sum over the non-free blocks) holds after
  construction and after \<open>allocate(10, 32)\<close>. After \<open>deallocate\<close> of the
  returned pointer the region is still tiled by the two blocks at 4096 and 4138,
  both of which read as free, so the sum over non-free blocks is 0; but
  \<open>used_size\<close> is \<open>2^64 - 4120\<close>, and the invariant fails.
\<close>

theorem heap_invariant_broken_by_deallocate:
  "heap_new_borrowed zero_memory 4096 1024 FirstFit = Some (ex_heap_m0, ex_heap_a0)
   \<and> heap_invariant ex_heap_m0 ex_heap_a0
   \<and> heap_allocate ex_heap_m0 ex_heap_a0 10 32 = Some (4128, ex_heap_m1, ex_heap_a1)
   \<and> heap_invariant ex_heap_m1 ex_heap_a1
   \<and> heap_deallocate ex_heap_m1 ex_heap_a1 4128 = Some (ex_heap_m2, ex_heap_a2)
   \<and> heap_blocks ex_heap_m2 4096 (4096 + 1024) = Some [4096, 4138]
   \<and> block_is_free ex_heap_m2 4096 \<and> block_is_free ex_heap_m2 4138
   \<and> heap_used_size ex_heap_a2 = 18446744073709547496
   \<and> \<not> heap_invariant ex_heap_m2 ex_heap_a2"
  using ex_heap_new ex_heap_invariant0 ex_heap_allocate ex_heap_invariant1 ex_heap_deallocate
    ex_heap_blocks2 ex_heap_invariant2
  by (simp add: heap_used_size_def ex_heap_a2_def)

theorem heap_invariant_broken_by_deallocate_witness:
  "heap_invariant ex_heap_m1 ex_heap_a1 \<and> \<not> heap_invariant ex_heap_m2 ex_heap_a2
   \<and> heap_used_size ex_heap_a2 \<noteq> 0"
  using heap_invariant_broken_by_deallocate by simp

text \<open>
  C4 on the same buffer. \<open>allocate(10, 32)\<close> returns 4128, a multiple of 32; the
  header it wrote is at 4096, with \<open>is_free = false\<close> and \<open>padding = 8\<close>
  (4096 + 24 + 8 = 4128). The header search of \<open>deallocate(4128)\<close> stops at its
  first candidate, 4128 - 24 = 4104: the two bytes it reads there as \<open>is_free\<close>
  and \<open>padding\<close> are the untouched zero bytes 4120 and 4121 of the alignment gap.
  \<open>deallocate\<close> then subtracts 24 plus the word at 4104 (the real header's
  \<open>next\<close> field, 4138) from \<open>used_size\<close>, which goes from 42 to
  \<open>2^64 - 4120\<close> and not back to 0.
\<close>

theorem heap_deallocate_misses_header:
  "heap_new_borrowed zero_memory 4096 1024 FirstFit = Some (ex_heap_m0, ex_heap_a0)
   \<and> heap_used_size ex_heap_a0 = 0
   \<and> heap_allocate ex_heap_m0 ex_heap_a0 10 32 = Some (4128, ex_heap_m1, ex_heap_a1)
   \<and> (4128 :: ptr) mod 32 = 0
   \<and> \<not> hdr_is_free ex_heap_m1 4096 \<and> hdr_padding ex_heap_m1 4096 = 8
   \<and> (4096 :: ptr) + HEADER_SIZE + 8 = 4128
   \<and> heap_used_size ex_heap_a1 = 42
   \<and> scan_header ex_heap_m1 (f_memory ex_heap_a1) 4128 HEADER_SIZE = 4104
   \<and> hdr_size ex_heap_m1 4104 = 4138
   \<and> heap_deallocate ex_heap_m1 ex_heap_a1 4128 = Some (ex_heap_m2, ex_heap_a2)
   \<and> heap_used_size ex_heap_a2 = 18446744073709547496"
  using ex_heap_new ex_heap_allocate ex_heap_scan ex_heap_deallocate
  by (simp add: heap_used_size_def ex_heap_defs hdr_is_free_def hdr_padding_def hdr_size_def
      set_padding_def set_is_free_def set_next_def set_size_def split_block_def
      HEADER_SIZE_def mem_simps Let_def)

theorem heap_deallocate_misses_header_witness:
  "scan_header ex_heap_m1 (f_memory ex_heap_a1) 4128 HEADER_SIZE \<noteq> 4096
   \<and> heap_used_size ex_heap_a2 \<noteq> heap_used_size ex_heap_a0"
  using heap_deallocate_misses_header by simp

section \<open>Properties: moved-from engines\<close>










section \<open>Properties: runs of pool clients\<close>



lemma pool_slot_bound:
  assumes g: "pool_geometry a" and i: "i < unat (p_chunk_count a)"
  shows "unat (p_memory a) + unat (p_chunk_size a) * i + unat (p_chunk_size a) \<le> 2 ^ 64"
proof -
  have "unat (p_chunk_size a) * Suc i \<le> unat (p_chunk_size a) * unat (p_chunk_count a)"
    using i by (intro mult_le_mono2) simp
  then have "unat (p_chunk_size a) * i + unat (p_chunk_size a)
      \<le> unat (p_chunk_size a) * unat (p_chunk_count a)"
    by simp
  moreover have "unat (p_memory a) + unat (p_chunk_size a) * unat (p_chunk_count a) \<le> 2 ^ 64"
    using g by (simp add: pool_geometry_def)
  ultimately show ?thesis by linarith
qed

lemma pool_slot_unat:
  assumes g: "pool_geometry a" and i: "i < unat (p_chunk_count a)"
  shows "unat (p_memory a + p_chunk_size a * of_nat i)
     = unat (p_memory a) + unat (p_chunk_size a) * i"
proof -
  have cs: "8 \<le> unat (p_chunk_size a)" using g by (simp add: pool_geometry_def)
  have b: "unat (p_memory a) + unat (p_chunk_size a) * i + unat (p_chunk_size a) \<le> 2 ^ 64"
    using g i by (rule pool_slot_bound)
  have "unat (p_chunk_count a) < 2 ^ 64" using unsigned_less [of "p_chunk_count a"] by simp
  with i have "i < 2 ^ 64" by linarith
  then have ui: "unat (word_of_nat i :: size_t) = i"
    by (simp add: unat_of_nat)
  have "unat (p_chunk_size a) * unat (word_of_nat i :: size_t) < 2 ^ LENGTH(64)"
    using b cs by (simp add: ui)
  then have "unat (p_chunk_size a * word_of_nat i)
      = unat (p_chunk_size a) * unat (word_of_nat i :: size_t)"
    by (rule unat_mult_lem [THEN iffD1])
  then have m: "unat (p_chunk_size a * word_of_nat i) = unat (p_chunk_size a) * i"
    by (simp only: ui)
  have "unat (p_memory a) + unat (p_chunk_size a * word_of_nat i) < 2 ^ LENGTH(64)"
    using b cs by (simp add: m)
  then have "unat (p_memory a + p_chunk_size a * word_of_nat i)
      = unat (p_memory a) + unat (p_chunk_size a * word_of_nat i)"
    by (rule unat_add_lem [THEN iffD1])
  then show ?thesis
    by (simp only: m)
qed


lemma pool_slotE:
  assumes "s \<in> pool_slots a"
  obtains i where "i < unat (p_chunk_count a)" "s = p_memory a + p_chunk_size a * of_nat i"
  using assms by (auto simp: pool_slots_def)





lemma pool_slot_end:
  assumes g: "pool_geometry a" and s: "s \<in> pool_slots a"
  shows "unat s + unat (p_chunk_size a) \<le> 2 ^ 64"
proof -
  from s obtain i where i: "i < unat (p_chunk_count a)"
    and si: "s = p_memory a + p_chunk_size a * of_nat i" by (rule pool_slotE)
  have us: "unat s = unat (p_memory a) + unat (p_chunk_size a) * i"
    unfolding si using g i by (rule pool_slot_unat)
  show ?thesis using pool_slot_bound [OF g i] us by simp
qed


















section \<open>Properties: free list scans of the heap\<close>

lemma exact_fit_fits: "exact_fit m sz al b \<Longrightarrow> fits m sz al b"
  by (simp add: exact_fit_def fits_def)

lemma find_first_fit_loop_unfold:
  "find_first_fit_loop m sz al p =
     (if p = nullptr then Some nullptr
      else if fits m sz al p then Some p
      else find_first_fit_loop m sz al (hdr_next m p))"
  by (subst find_first_fit_loop.simps) (simp add: Let_def fits_def)

lemma find_best_fit_loop_unfold:
  "find_best_fit_loop m sz al best s p =
     (if p = nullptr then Some best
      else if fits m sz al p \<and> hdr_size m p < s
      then (if exact_fit m sz al p then Some p
            else find_best_fit_loop m sz al p (hdr_size m p) (hdr_next m p))
      else find_best_fit_loop m sz al best s (hdr_next m p))"
  by (subst find_best_fit_loop.simps) (simp add: Let_def fits_def exact_fit_def)

lemma find_worst_fit_loop_unfold:
  "find_worst_fit_loop m sz al worst l p =
     (if p = nullptr then Some worst
      else if fits m sz al p \<and> l < hdr_size m p
      then find_worst_fit_loop m sz al p (hdr_size m p) (hdr_next m p)
      else find_worst_fit_loop m sz al worst l (hdr_next m p))"
  by (subst find_worst_fit_loop.simps) (simp add: Let_def fits_def)

lemma find_first_fit_loop_choice:
  "heap_path m p xs nullptr \<Longrightarrow>
     \<exists>r. find_first_fit_loop m sz al p = Some r \<and> first_choice m sz al xs r"
proof (induction xs arbitrary: p)
  case Nil
  then show ?case
    by (subst find_first_fit_loop_unfold) (simp add: first_choice_def)
next
  case (Cons x xs)
  then have p: "p = x" "x \<noteq> nullptr" and path: "heap_path m (hdr_next m x) xs nullptr"
    by simp_all
  show ?case
  proof (cases "fits m sz al x")
    case True
    have "first_choice m sz al (x # xs) x"
      unfolding first_choice_def using True by (intro disjI2 exI [of _ "[]"] exI [of _ xs]) simp
    then show ?thesis
      using p True by (subst find_first_fit_loop_unfold) simp
  next
    case False
    from Cons.IH [OF path] obtain r where
      r: "find_first_fit_loop m sz al (hdr_next m x) = Some r" and c: "first_choice m sz al xs r"
      by blast
    from c have "first_choice m sz al (x # xs) r"
      unfolding first_choice_def
    proof (elim disjE exE conjE)
      assume "r = nullptr" "\<forall>y \<in> set xs. \<not> fits m sz al y"
      then show "(r = nullptr \<and> (\<forall>y \<in> set (x # xs). \<not> fits m sz al y))
          \<or> (\<exists>pre post. x # xs = pre @ r # post \<and> fits m sz al r
               \<and> (\<forall>y \<in> set pre. \<not> fits m sz al y))"
        using False by simp
    next
      fix pre post
      assume "xs = pre @ r # post" "fits m sz al r" "\<forall>y \<in> set pre. \<not> fits m sz al y"
      then have "x # xs = (x # pre) @ r # post \<and> fits m sz al r
          \<and> (\<forall>y \<in> set (x # pre). \<not> fits m sz al y)"
        using False by simp
      then show "(r = nullptr \<and> (\<forall>y \<in> set (x # xs). \<not> fits m sz al y))
          \<or> (\<exists>pre post. x # xs = pre @ r # post \<and> fits m sz al r
               \<and> (\<forall>y \<in> set pre. \<not> fits m sz al y))"
        by blast
    qed
    then show ?thesis
      using p False r by (subst find_first_fit_loop_unfold) simp
  qed
qed


lemma find_best_fit_loop_choice:
  "heap_path m p xs nullptr \<Longrightarrow>
     \<exists>r. find_best_fit_loop m sz al best s p = Some r \<and>
       ((r = best \<and> (\<forall>x \<in> set xs. fits m sz al x \<longrightarrow> s \<le> hdr_size m x))
        \<or> (\<exists>pre post. xs = pre @ r # post \<and> fits m sz al r \<and> hdr_size m r < s
              \<and> (\<forall>x \<in> set pre. fits m sz al x \<longrightarrow> hdr_size m r < hdr_size m x)
              \<and> (exact_fit m sz al r
                   \<or> (\<forall>x \<in> set post. fits m sz al x \<longrightarrow> hdr_size m r \<le> hdr_size m x))))"
proof (induction xs arbitrary: p best s)
  case Nil
  then show ?case
    by (subst find_best_fit_loop_unfold) simp
next
  case (Cons x xs)
  then have p: "p = x" "x \<noteq> nullptr" and path: "heap_path m (hdr_next m x) xs nullptr"
    by simp_all
  consider (stop) "fits m sz al x" "hdr_size m x < s" "exact_fit m sz al x"
    | (take) "fits m sz al x" "hdr_size m x < s" "\<not> exact_fit m sz al x"
    | (skip) "\<not> (fits m sz al x \<and> hdr_size m x < s)"
    by blast
  then show ?case
  proof cases
    case stop
    have "x # xs = [] @ x # xs" by simp
    with stop have "\<exists>pre post. x # xs = pre @ x # post \<and> fits m sz al x \<and> hdr_size m x < s
        \<and> (\<forall>y \<in> set pre. fits m sz al y \<longrightarrow> hdr_size m x < hdr_size m y)
        \<and> (exact_fit m sz al x
             \<or> (\<forall>y \<in> set post. fits m sz al y \<longrightarrow> hdr_size m x \<le> hdr_size m y))"
      by (intro exI [of _ "[]"] exI [of _ xs]) simp
    then show ?thesis
      using p stop by (subst find_best_fit_loop_unfold) simp
  next
    case take
    from Cons.IH [OF path, of x "hdr_size m x"] obtain r where
      r: "find_best_fit_loop m sz al x (hdr_size m x) (hdr_next m x) = Some r"
      and c: "(r = x \<and> (\<forall>y \<in> set xs. fits m sz al y \<longrightarrow> hdr_size m x \<le> hdr_size m y))
        \<or> (\<exists>pre post. xs = pre @ r # post \<and> fits m sz al r \<and> hdr_size m r < hdr_size m x
              \<and> (\<forall>y \<in> set pre. fits m sz al y \<longrightarrow> hdr_size m r < hdr_size m y)
              \<and> (exact_fit m sz al r
                   \<or> (\<forall>y \<in> set post. fits m sz al y \<longrightarrow> hdr_size m r \<le> hdr_size m y)))"
      by blast
    have "\<exists>pre post. x # xs = pre @ r # post \<and> fits m sz al r \<and> hdr_size m r < s
        \<and> (\<forall>y \<in> set pre. fits m sz al y \<longrightarrow> hdr_size m r < hdr_size m y)
        \<and> (exact_fit m sz al r
             \<or> (\<forall>y \<in> set post. fits m sz al y \<longrightarrow> hdr_size m r \<le> hdr_size m y))"
    proof -
      from c consider (same) "r = x" "\<forall>y \<in> set xs. fits m sz al y \<longrightarrow> hdr_size m x \<le> hdr_size m y"
        | (later) pre post where "xs = pre @ r # post" "fits m sz al r" "hdr_size m r < hdr_size m x"
        "\<forall>y \<in> set pre. fits m sz al y \<longrightarrow> hdr_size m r < hdr_size m y"
        "exact_fit m sz al r
          \<or> (\<forall>y \<in> set post. fits m sz al y \<longrightarrow> hdr_size m r \<le> hdr_size m y)"
        by blast
      then show ?thesis
      proof cases
        case same
        then show ?thesis
        using take by (intro exI [of _ "[]"] exI [of _ xs]) simp
      next
        case later
        then show ?thesis
        using take by (intro exI [of _ "x # pre"] exI [of _ post]) auto
      qed
    qed
    then show ?thesis
      using p take r by (subst find_best_fit_loop_unfold) simp
  next
    case skip
    from Cons.IH [OF path, of best s] obtain r where
      r: "find_best_fit_loop m sz al best s (hdr_next m x) = Some r"
      and c: "(r = best \<and> (\<forall>y \<in> set xs. fits m sz al y \<longrightarrow> s \<le> hdr_size m y))
        \<or> (\<exists>pre post. xs = pre @ r # post \<and> fits m sz al r \<and> hdr_size m r < s
              \<and> (\<forall>y \<in> set pre. fits m sz al y \<longrightarrow> hdr_size m r < hdr_size m y)
              \<and> (exact_fit m sz al r
                   \<or> (\<forall>y \<in> set post. fits m sz al y \<longrightarrow> hdr_size m r \<le> hdr_size m y)))"
      by blast
    from skip have x: "fits m sz al x \<longrightarrow> s \<le> hdr_size m x" by auto
    have "(r = best \<and> (\<forall>y \<in> set (x # xs). fits m sz al y \<longrightarrow> s \<le> hdr_size m y))
        \<or> (\<exists>pre post. x # xs = pre @ r # post \<and> fits m sz al r \<and> hdr_size m r < s
              \<and> (\<forall>y \<in> set pre. fits m sz al y \<longrightarrow> hdr_size m r < hdr_size m y)
              \<and> (exact_fit m sz al r
                   \<or> (\<forall>y \<in> set post. fits m sz al y \<longrightarrow> hdr_size m r \<le> hdr_size m y)))"
    proof -
      from c consider (same) "r = best" "\<forall>y \<in> set xs. fits m sz al y \<longrightarrow> s \<le> hdr_size m y"
        | (later) pre post where "xs = pre @ r # post" "fits m sz al r" "hdr_size m r < s"
        "\<forall>y \<in> set pre. fits m sz al y \<longrightarrow> hdr_size m r < hdr_size m y"
        "exact_fit m sz al r
          \<or> (\<forall>y \<in> set post. fits m sz al y \<longrightarrow> hdr_size m r \<le> hdr_size m y)"
        by blast
      then show ?thesis
      proof cases
        case same
        then show ?thesis using x by simp
      next
        case later
        then show ?thesis
        using x by (intro disjI2 exI [of _ "x # pre"] exI [of _ post]) auto
      qed
    qed
    then show ?thesis
      using p skip r by (subst find_best_fit_loop_unfold) auto
  qed
qed

lemma find_worst_fit_loop_choice:
  "heap_path m p xs nullptr \<Longrightarrow>
     \<exists>r. find_worst_fit_loop m sz al worst l p = Some r \<and>
       ((r = worst \<and> (\<forall>x \<in> set xs. fits m sz al x \<longrightarrow> hdr_size m x \<le> l))
        \<or> (\<exists>pre post. xs = pre @ r # post \<and> fits m sz al r \<and> l < hdr_size m r
              \<and> (\<forall>x \<in> set pre. fits m sz al x \<longrightarrow> hdr_size m x < hdr_size m r)
              \<and> (\<forall>x \<in> set post. fits m sz al x \<longrightarrow> hdr_size m x \<le> hdr_size m r)))"
proof (induction xs arbitrary: p worst l)
  case Nil
  then show ?case
    by (subst find_worst_fit_loop_unfold) simp
next
  case (Cons x xs)
  then have p: "p = x" "x \<noteq> nullptr" and path: "heap_path m (hdr_next m x) xs nullptr"
    by simp_all
  show ?case
  proof (cases "fits m sz al x \<and> l < hdr_size m x")
    case True
    from Cons.IH [OF path, of x "hdr_size m x"] obtain r where
      r: "find_worst_fit_loop m sz al x (hdr_size m x) (hdr_next m x) = Some r"
      and c: "(r = x \<and> (\<forall>y \<in> set xs. fits m sz al y \<longrightarrow> hdr_size m y \<le> hdr_size m x))
        \<or> (\<exists>pre post. xs = pre @ r # post \<and> fits m sz al r \<and> hdr_size m x < hdr_size m r
              \<and> (\<forall>y \<in> set pre. fits m sz al y \<longrightarrow> hdr_size m y < hdr_size m r)
              \<and> (\<forall>y \<in> set post. fits m sz al y \<longrightarrow> hdr_size m y \<le> hdr_size m r))"
      by blast
    have "\<exists>pre post. x # xs = pre @ r # post \<and> fits m sz al r \<and> l < hdr_size m r
        \<and> (\<forall>y \<in> set pre. fits m sz al y \<longrightarrow> hdr_size m y < hdr_size m r)
        \<and> (\<forall>y \<in> set post. fits m sz al y \<longrightarrow> hdr_size m y \<le> hdr_size m r)"
    proof -
      from c consider (same) "r = x" "\<forall>y \<in> set xs. fits m sz al y \<longrightarrow> hdr_size m y \<le> hdr_size m x"
        | (later) pre post where "xs = pre @ r # post" "fits m sz al r" "hdr_size m x < hdr_size m r"
        "\<forall>y \<in> set pre. fits m sz al y \<longrightarrow> hdr_size m y < hdr_size m r"
        "\<forall>y \<in> set post. fits m sz al y \<longrightarrow> hdr_size m y \<le> hdr_size m r"
        by blast
      then show ?thesis
      proof cases
        case same
        then show ?thesis
        using True by (intro exI [of _ "[]"] exI [of _ xs]) simp
      next
        case later
        then show ?thesis
        using True by (intro exI [of _ "x # pre"] exI [of _ post]) auto
      qed
    qed
    then show ?thesis
      using p True r by (subst find_worst_fit_loop_unfold) simp
  next
    case False
    from Cons.IH [OF path, of worst l] obtain r where
      r: "find_worst_fit_loop m sz al worst l (hdr_next m x) = Some r"
      and c: "(r = worst \<and> (\<forall>y \<in> set xs. fits m sz al y \<longrightarrow> hdr_size m y \<le> l))
        \<or> (\<exists>pre post. xs = pre @ r # post \<and> fits m sz al r \<and> l < hdr_size m r
              \<and> (\<forall>y \<in> set pre. fits m sz al y \<longrightarrow> hdr_size m y < hdr_size m r)
              \<and> (\<forall>y \<in> set post. fits m sz al y \<longrightarrow> hdr_size m y \<le> hdr_size m r))"
      by blast
    from False have x: "fits m sz al x \<longrightarrow> hdr_size m x \<le> l" by auto
    have "(r = worst \<and> (\<forall>y \<in> set (x # xs). fits m sz al y \<longrightarrow> hdr_size m y \<le> l))
        \<or> (\<exists>pre post. x # xs = pre @ r # post \<and> fits m sz al r \<and> l < hdr_size m r
              \<and> (\<forall>y \<in> set pre. fits m sz al y \<longrightarrow> hdr_size m y < hdr_size m r)
              \<and> (\<forall>y \<in> set post. fits m sz al y \<longrightarrow> hdr_size m y \<le> hdr_size m r))"
    proof -
      from c consider (same) "r = worst" "\<forall>y \<in> set xs. fits m sz al y \<longrightarrow> hdr_size m y \<le> l"
        | (later) pre post where "xs = pre @ r # post" "fits m sz al r" "l < hdr_size m r"
        "\<forall>y \<in> set pre. fits m sz al y \<longrightarrow> hdr_size m y < hdr_size m r"
        "\<forall>y \<in> set post. fits m sz al y \<longrightarrow> hdr_size m y \<le> hdr_size m r"
        by blast
      then show ?thesis
      proof cases
        case same
        then show ?thesis using x by simp
      next
        case later
        then show ?thesis
        using x by (intro disjI2 exI [of _ "x # pre"] exI [of _ post]) auto
      qed
    qed
    then show ?thesis
      using p False r by (subst find_worst_fit_loop_unfold) auto
  qed
qed


lemma find_best_fit_loop_stop:
  "heap_path m p pre b \<Longrightarrow> b \<noteq> nullptr \<Longrightarrow> exact_fit m sz al b \<Longrightarrow> hdr_size m b < s \<Longrightarrow>
   \<forall>x \<in> set pre. fits m sz al x \<longrightarrow> hdr_size m b < hdr_size m x \<Longrightarrow>
   \<forall>us c vs. pre = us @ c # vs \<longrightarrow>
      \<not> (exact_fit m sz al c \<and> hdr_size m c < s
          \<and> (\<forall>y \<in> set us. fits m sz al y \<longrightarrow> hdr_size m c < hdr_size m y)) \<Longrightarrow>
   find_best_fit_loop m sz al best s p = Some b"
proof (induction pre arbitrary: p best s)
  case Nil
  then show ?case
    by (subst find_best_fit_loop_unfold) (simp add: exact_fit_fits)
next
  case (Cons x pre)
  from Cons.prems(1) have p: "p = x" "x \<noteq> nullptr" and path: "heap_path m (hdr_next m x) pre b"
    by simp_all
  from Cons.prems(6) [rule_format, of "[]" x pre]
  have nostop: "\<not> (exact_fit m sz al x \<and> hdr_size m x < s)"
    by simp
  from Cons.prems(5) have small: "\<forall>y \<in> set pre. fits m sz al y \<longrightarrow> hdr_size m b < hdr_size m y"
    and bx: "fits m sz al x \<longrightarrow> hdr_size m b < hdr_size m x"
    by simp_all
  show ?case
  proof (cases "fits m sz al x \<and> hdr_size m x < s")
    case True
    have later: "\<forall>us c vs. pre = us @ c # vs \<longrightarrow>
        \<not> (exact_fit m sz al c \<and> hdr_size m c < hdr_size m x
            \<and> (\<forall>y \<in> set us. fits m sz al y \<longrightarrow> hdr_size m c < hdr_size m y))"
    proof (intro allI impI notI)
      fix us c vs
      assume "pre = us @ c # vs"
        and c: "exact_fit m sz al c \<and> hdr_size m c < hdr_size m x
          \<and> (\<forall>y \<in> set us. fits m sz al y \<longrightarrow> hdr_size m c < hdr_size m y)"
      then have "x # pre = (x # us) @ c # vs"
        by simp
      from Cons.prems(6) [rule_format, OF this] c True show False
        by auto
    qed
    from True bx have "hdr_size m b < hdr_size m x"
      by simp
    from Cons.IH [OF path Cons.prems(2,3) this small later]
    have "find_best_fit_loop m sz al x (hdr_size m x) (hdr_next m x) = Some b" .
    then show ?thesis
      using p True nostop by (subst find_best_fit_loop_unfold) auto
  next
    case False
    have later: "\<forall>us c vs. pre = us @ c # vs \<longrightarrow>
        \<not> (exact_fit m sz al c \<and> hdr_size m c < s
            \<and> (\<forall>y \<in> set us. fits m sz al y \<longrightarrow> hdr_size m c < hdr_size m y))"
    proof (intro allI impI notI)
      fix us c vs
      assume "pre = us @ c # vs"
        and c: "exact_fit m sz al c \<and> hdr_size m c < s
          \<and> (\<forall>y \<in> set us. fits m sz al y \<longrightarrow> hdr_size m c < hdr_size m y)"
      then have "x # pre = (x # us) @ c # vs"
        by simp
      from Cons.prems(6) [rule_format, OF this] c False show False
        by auto
    qed
    from Cons.IH [OF path Cons.prems(2,3,4) small later]
    have "find_best_fit_loop m sz al best s (hdr_next m x) = Some b" .
    then show ?thesis
      using p False by (subst find_best_fit_loop_unfold) auto
  qed
qed

lemma find_best_fit_loop_first_exact:
  assumes path: "heap_path m p pre b" and b: "b \<noteq> nullptr"
    and exact: "hdr_size m b = sz" "hdr_size m b \<noteq> - 1"
    and pad: "\<forall>x \<in> set pre. calc_padding (x + HEADER_SIZE) al = 0"
      "calc_padding (b + HEADER_SIZE) al = 0"
    and first: "\<forall>x \<in> set pre. hdr_size m x \<noteq> sz"
  shows "find_best_fit_loop m sz al nullptr (- 1) p = Some b"
proof (rule find_best_fit_loop_stop [OF path b])
  show "exact_fit m sz al b"
    using exact pad by (simp add: exact_fit_def)
  show "hdr_size m b < - 1"
    using exact(2) by (simp add: word_less_def word_order.not_eq_extremum)
  show "\<forall>x \<in> set pre. fits m sz al x \<longrightarrow> hdr_size m b < hdr_size m x"
    using exact(1) pad(1) first by (auto simp add: fits_def)
  show "\<forall>us c vs. pre = us @ c # vs \<longrightarrow>
      \<not> (exact_fit m sz al c \<and> hdr_size m c < - 1
          \<and> (\<forall>y \<in> set us. fits m sz al y \<longrightarrow> hdr_size m c < hdr_size m y))"
    using pad(1) first by (auto simp add: exact_fit_def)
qed

subsection \<open>Example runs\<close>

text \<open>
  Unfoldings of the list walks that rewrite only once the test of the loop is decided.
\<close>

lemma find_first_fit_loop_step:
  "find_first_fit_loop m sz al nullptr = Some nullptr"
  "c \<noteq> nullptr \<Longrightarrow> sz + calc_padding (c + HEADER_SIZE) al \<le> hdr_size m c \<Longrightarrow>
     find_first_fit_loop m sz al c = Some c"
  "c \<noteq> nullptr \<Longrightarrow> \<not> sz + calc_padding (c + HEADER_SIZE) al \<le> hdr_size m c \<Longrightarrow>
     find_first_fit_loop m sz al c = find_first_fit_loop m sz al (hdr_next m c)"
  by (subst find_first_fit_loop.simps, simp add: Let_def)+

lemma remove_free_block_loop_step:
  "c = nullptr \<or> hdr_next m c = b \<Longrightarrow> remove_free_block_loop m b c = Some c"
  "c \<noteq> nullptr \<Longrightarrow> hdr_next m c \<noteq> b \<Longrightarrow>
     remove_free_block_loop m b c = remove_free_block_loop m b (hdr_next m c)"
  by (subst remove_free_block_loop.simps, auto)+

lemma coalesce_loop_stop:
  "c = nullptr \<or> hdr_next m c = nullptr \<Longrightarrow> coalesce_loop m c = Some m"
  by (subst coalesce_loop.simps) auto

lemma coalesce_loop_skip:
  "c \<noteq> nullptr \<Longrightarrow> hdr_next m c \<noteq> nullptr \<Longrightarrow> c + HEADER_SIZE + hdr_size m c \<noteq> hdr_next m c \<Longrightarrow>
     coalesce_loop m c = coalesce_loop m (hdr_next m c)"
  by (subst coalesce_loop.simps) (simp add: Let_def)

lemmas step_simps = find_first_fit_loop_step find_best_fit_loop.simps
  find_worst_fit_loop.simps remove_free_block_loop_step coalesce_loop_stop coalesce_loop_skip
  scan_header_step

lemmas ex_fit_defs =
  ex_fit_m0_def ex_fit_a0_def ex_fit_m1_def ex_fit_a1_def ex_fit_m2_def ex_fit_a2_def
  ex_fit_m3_def ex_fit_a3_def ex_fit_m4_def ex_fit_a4_def ex_fit_m5_def ex_fit_a5_def
  ex_fit_m6_def ex_fit_a6_def ex_fit_m7_def ex_fit_a7_def

lemma ex_fit_new:
  "heap_new_borrowed zero_memory 4096 472 FirstFit = Some (ex_fit_m0, ex_fit_a0)"
  by (simp add: heap_new_borrowed_def heap_init_def ex_fit_m0_def ex_fit_a0_def HEADER_SIZE_def)

lemma ex_fit_step1:
  "heap_allocate ex_fit_m0 ex_fit_a0 120 1 = Some (4120, ex_fit_m1, ex_fit_a1)"
  by (simp add: ex_fit_defs heap_defs step_simps mem_simps Let_def)

lemma ex_fit_step2:
  "heap_allocate ex_fit_m1 ex_fit_a1 200 1 = Some (4264, ex_fit_m2, ex_fit_a2)"
  by (simp add: ex_fit_defs heap_defs step_simps mem_simps Let_def)

lemma ex_fit_step3:
  "heap_allocate ex_fit_m2 ex_fit_a2 80 1 = Some (4488, ex_fit_m3, ex_fit_a3)"
  by (simp add: ex_fit_defs heap_defs step_simps mem_simps Let_def)

lemma ex_fit_scan4: "scan_header ex_fit_m3 4096 4120 24 = 4096"
  by (simp add: ex_fit_defs heap_defs step_simps mem_simps)

lemma ex_fit_size4: "hdr_size ex_fit_m3 4096 = 120"
  by (simp add: ex_fit_defs heap_defs mem_simps)

lemma ex_fit_coalesce4:
  "coalesce_loop (set_next (set_is_free ex_fit_m3 4096 True) 4096 nullptr) 4096
     = Some (set_next (set_is_free ex_fit_m3 4096 True) 4096 nullptr)"
  by (simp add: ex_fit_defs heap_defs step_simps mem_simps)

lemma ex_fit_step4:
  "heap_deallocate ex_fit_m3 ex_fit_a3 4120 = Some (ex_fit_m4, ex_fit_a4)"
  by (simp add: heap_deallocate_def insert_free_block_def coalesce_def Let_def HEADER_SIZE_def
      ex_fit_a3_def ex_fit_a4_def ex_fit_m4_def ex_fit_scan4 ex_fit_size4 ex_fit_coalesce4)

lemma ex_fit_scan5: "scan_header ex_fit_m4 4096 4264 24 = 4240"
  by (simp add: ex_fit_defs heap_defs step_simps mem_simps)

lemma ex_fit_size5: "hdr_size ex_fit_m4 4240 = 200"
  by (simp add: ex_fit_defs heap_defs mem_simps)

lemma ex_fit_coalesce5:
  "coalesce_loop (set_next (set_is_free ex_fit_m4 4240 True) 4240 4096) 4240
     = Some (set_next (set_is_free ex_fit_m4 4240 True) 4240 4096)"
  by (simp add: ex_fit_defs heap_defs step_simps mem_simps)

lemma ex_fit_step5:
  "heap_deallocate ex_fit_m4 ex_fit_a4 4264 = Some (ex_fit_m5, ex_fit_a5)"
  by (simp add: heap_deallocate_def insert_free_block_def coalesce_def Let_def HEADER_SIZE_def
      ex_fit_a4_def ex_fit_a5_def ex_fit_m5_def ex_fit_scan5 ex_fit_size5 ex_fit_coalesce5)

lemma ex_fit_scan6: "scan_header ex_fit_m5 4096 4488 24 = 4464"
  by (simp add: ex_fit_defs heap_defs step_simps mem_simps)

lemma ex_fit_size6: "hdr_size ex_fit_m5 4464 = 80"
  by (simp add: ex_fit_defs heap_defs mem_simps)

lemma ex_fit_coalesce6:
  "coalesce_loop (set_next (set_is_free ex_fit_m5 4464 True) 4464 4240) 4464
     = Some (set_next (set_is_free ex_fit_m5 4464 True) 4464 4240)"
  by (simp add: ex_fit_defs heap_defs step_simps mem_simps)

lemma ex_fit_step6:
  "heap_deallocate ex_fit_m5 ex_fit_a5 4488 = Some (ex_fit_m6, ex_fit_a6)"
  by (simp add: heap_deallocate_def insert_free_block_def coalesce_def Let_def HEADER_SIZE_def
      ex_fit_a5_def ex_fit_a6_def ex_fit_m6_def ex_fit_scan6 ex_fit_size6 ex_fit_coalesce6)

lemma ex_fit_step7:
  "heap_allocate ex_fit_m6 ex_fit_a6 100 1 = Some (4264, ex_fit_m7, ex_fit_a7)"
  by (simp add: ex_fit_defs heap_defs step_simps mem_simps Let_def)

lemmas ex_pad_defs =
  ex_pad_m0_def ex_pad_a0_def ex_pad_m1_def ex_pad_a1_def ex_pad_m2_def ex_pad_a2_def
  ex_pad_m3_def ex_pad_a3_def ex_pad_m4_def ex_pad_a4_def ex_pad_m5_def ex_pad_a5_def
  ex_pad_m6_def ex_pad_a6_def

lemma ex_pad_new:
  "heap_new_borrowed zero_memory 4104 136 BestFit = Some (ex_pad_m0, ex_pad_a0)"
  by (simp add: heap_new_borrowed_def heap_init_def ex_pad_m0_def ex_pad_a0_def HEADER_SIZE_def)

lemma ex_pad_step1:
  "heap_allocate ex_pad_m0 ex_pad_a0 24 1 = Some (4128, ex_pad_m1, ex_pad_a1)"
  by (simp add: ex_pad_defs heap_defs step_simps mem_simps Let_def)

lemma ex_pad_step2:
  "heap_allocate ex_pad_m1 ex_pad_a1 16 1 = Some (4176, ex_pad_m2, ex_pad_a2)"
  by (simp add: ex_pad_defs heap_defs step_simps mem_simps Let_def)

lemma ex_pad_step3:
  "heap_allocate ex_pad_m2 ex_pad_a2 24 1 = Some (4216, ex_pad_m3, ex_pad_a3)"
  by (simp add: ex_pad_defs heap_defs step_simps mem_simps Let_def)

lemma ex_pad_scan4: "scan_header ex_pad_m3 4104 4176 24 = 4152"
  by (simp add: ex_pad_defs heap_defs step_simps mem_simps)

lemma ex_pad_size4: "hdr_size ex_pad_m3 4152 = 16"
  by (simp add: ex_pad_defs heap_defs mem_simps)

lemma ex_pad_coalesce4:
  "coalesce_loop (set_next (set_is_free ex_pad_m3 4152 True) 4152 nullptr) 4152
     = Some (set_next (set_is_free ex_pad_m3 4152 True) 4152 nullptr)"
  by (simp add: ex_pad_defs heap_defs step_simps mem_simps)

lemma ex_pad_step4:
  "heap_deallocate ex_pad_m3 ex_pad_a3 4176 = Some (ex_pad_m4, ex_pad_a4)"
  by (simp add: heap_deallocate_def insert_free_block_def coalesce_def Let_def HEADER_SIZE_def
      ex_pad_a3_def ex_pad_a4_def ex_pad_m4_def ex_pad_scan4 ex_pad_size4 ex_pad_coalesce4)

lemma ex_pad_scan5: "scan_header ex_pad_m4 4104 4216 24 = 4192"
  by (simp add: ex_pad_defs heap_defs step_simps mem_simps)

lemma ex_pad_size5: "hdr_size ex_pad_m4 4192 = 24"
  by (simp add: ex_pad_defs heap_defs mem_simps)

lemma ex_pad_coalesce5:
  "coalesce_loop (set_next (set_is_free ex_pad_m4 4192 True) 4192 4152) 4192
     = Some (set_next (set_is_free ex_pad_m4 4192 True) 4192 4152)"
  by (simp add: ex_pad_defs heap_defs step_simps mem_simps)

lemma ex_pad_step5:
  "heap_deallocate ex_pad_m4 ex_pad_a4 4216 = Some (ex_pad_m5, ex_pad_a5)"
  by (simp add: heap_deallocate_def insert_free_block_def coalesce_def Let_def HEADER_SIZE_def
      ex_pad_a4_def ex_pad_a5_def ex_pad_m5_def ex_pad_scan5 ex_pad_size5 ex_pad_coalesce5)

lemma ex_pad_scan6: "scan_header ex_pad_m5 4104 4128 24 = 4104"
  by (simp add: ex_pad_defs heap_defs step_simps mem_simps)

lemma ex_pad_size6: "hdr_size ex_pad_m5 4104 = 24"
  by (simp add: ex_pad_defs heap_defs mem_simps)

lemma ex_pad_coalesce6:
  "coalesce_loop (set_next (set_is_free ex_pad_m5 4104 True) 4104 4192) 4104
     = Some (set_next (set_is_free ex_pad_m5 4104 True) 4104 4192)"
  by (simp add: ex_pad_defs heap_defs step_simps mem_simps)

lemma ex_pad_step6:
  "heap_deallocate ex_pad_m5 ex_pad_a5 4128 = Some (ex_pad_m6, ex_pad_a6)"
  by (simp add: heap_deallocate_def insert_free_block_def coalesce_def Let_def HEADER_SIZE_def
      ex_pad_a5_def ex_pad_a6_def ex_pad_m6_def ex_pad_scan6 ex_pad_size6 ex_pad_coalesce6)

lemma ex_fit_run:
  "heap_run ex_fit_m0 ex_fit_a0
     [HAllocate 120 1, HAllocate 200 1, HAllocate 80 1,
      HDeallocate 4120, HDeallocate 4264, HDeallocate 4488]
   = Some ([4120, 4264, 4488], ex_fit_m6, ex_fit_a6)"
  by (simp add: ex_fit_step1 ex_fit_step2 ex_fit_step3 ex_fit_step4 ex_fit_step5 ex_fit_step6)

lemma ex_fit_list:
  "heap_path ex_fit_m6 (f_free_list ex_fit_a6) [4464, 4240, 4096] nullptr"
  "map (hdr_size ex_fit_m6) [4464, 4240, 4096] = [80, 200, 120]"
  by (simp_all add: ex_fit_defs heap_defs mem_simps)

lemma ex_fit_find:
  "find_first_fit ex_fit_m6 ex_fit_a6 100 1 = Some 4240"
  "find_best_fit ex_fit_m6 ex_fit_a6 100 1 = Some 4096"
  "find_worst_fit ex_fit_m6 ex_fit_a6 100 1 = Some 4240"
  by (simp_all add: ex_fit_defs heap_defs step_simps mem_simps Let_def)

lemma ex_fit_list7:
  "heap_path ex_fit_m7 (f_free_list ex_fit_a7) [4464, 4364, 4096] nullptr"
  by (simp add: ex_fit_defs heap_defs mem_simps)

lemma ex_pad_run:
  "heap_run ex_pad_m0 ex_pad_a0
     [HAllocate 24 1, HAllocate 16 1, HAllocate 24 1,
      HDeallocate 4176, HDeallocate 4216, HDeallocate 4128]
   = Some ([4128, 4176, 4216], ex_pad_m6, ex_pad_a6)"
  by (simp add: ex_pad_step1 ex_pad_step2 ex_pad_step3 ex_pad_step4 ex_pad_step5 ex_pad_step6)

lemma ex_pad_list:
  "heap_path ex_pad_m6 (f_free_list ex_pad_a6) [4104, 4192, 4152] nullptr"
  "map (hdr_size ex_pad_m6) [4104, 4192, 4152] = [24, 24, 16]"
  by (simp_all add: ex_pad_defs heap_defs mem_simps)

lemma ex_pad_find:
  "find_best_fit ex_pad_m6 ex_pad_a6 16 16 = Some 4152"
  "exact_fit ex_pad_m6 16 16 4192"
  by (simp_all add: ex_pad_defs heap_defs step_simps mem_simps Let_def exact_fit_def)

subsection \<open>Fit strategies\<close>

lemma find_best_fit_choice:
  assumes "heap_path m (f_free_list a) xs nullptr"
  shows "\<exists>r. find_best_fit m a sz al = Some r \<and> best_choice m sz al xs r"
proof -
  from find_best_fit_loop_choice [OF assms, of sz al nullptr "- 1"] obtain r where
    r: "find_best_fit_loop m sz al nullptr (- 1) (f_free_list a) = Some r"
    and c: "(r = nullptr \<and> (\<forall>x \<in> set xs. fits m sz al x \<longrightarrow> - 1 \<le> hdr_size m x))
        \<or> (\<exists>pre post. xs = pre @ r # post \<and> fits m sz al r \<and> hdr_size m r < - 1
              \<and> (\<forall>x \<in> set pre. fits m sz al x \<longrightarrow> hdr_size m r < hdr_size m x)
              \<and> (exact_fit m sz al r
                   \<or> (\<forall>x \<in> set post. fits m sz al x \<longrightarrow> hdr_size m r \<le> hdr_size m x)))"
    by blast
  have "- 1 \<le> w \<longleftrightarrow> w = - 1" for w :: size_t
    by (simp add: word_order.extremum_unique)
  with c have "best_choice m sz al xs r"
    unfolding best_choice_def by blast
  with r show ?thesis
    by (simp add: find_best_fit_def)
qed

lemma find_worst_fit_choice:
  assumes "heap_path m (f_free_list a) xs nullptr"
  shows "\<exists>r. find_worst_fit m a sz al = Some r \<and> worst_choice m sz al xs r"
proof -
  from find_worst_fit_loop_choice [OF assms, of sz al nullptr 0] obtain r where
    r: "find_worst_fit_loop m sz al nullptr 0 (f_free_list a) = Some r"
    and c: "(r = nullptr \<and> (\<forall>x \<in> set xs. fits m sz al x \<longrightarrow> hdr_size m x \<le> 0))
        \<or> (\<exists>pre post. xs = pre @ r # post \<and> fits m sz al r \<and> 0 < hdr_size m r
              \<and> (\<forall>x \<in> set pre. fits m sz al x \<longrightarrow> hdr_size m x < hdr_size m r)
              \<and> (\<forall>x \<in> set post. fits m sz al x \<longrightarrow> hdr_size m x \<le> hdr_size m r))"
    by blast
  then have "worst_choice m sz al xs r"
    unfolding worst_choice_def by (simp only: word_le_0_iff) blast
  with r show ?thesis
    by (simp add: find_worst_fit_def)
qed

lemma find_best_fit_stop:
  assumes "heap_path m (f_free_list a) pre b" "b \<noteq> nullptr" "best_stop m sz al pre b"
    and "\<forall>us c vs. pre = us @ c # vs \<longrightarrow> \<not> best_stop m sz al us c"
  shows "find_best_fit m a sz al = Some b"
  unfolding find_best_fit_def
  using assms by (intro find_best_fit_loop_stop [where pre = pre]) (simp_all add: best_stop_def)

lemma fit_example:
  assumes path: "heap_path m (f_free_list a) [x, y, z] nullptr"
    and sizes: "hdr_size m x = 80" "hdr_size m y = 200" "hdr_size m z = 120"
    and pad: "calc_padding (x + HEADER_SIZE) al = 0" "calc_padding (y + HEADER_SIZE) al = 0"
      "calc_padding (z + HEADER_SIZE) al = 0"
  shows "find_first_fit m a 100 al = Some y" "find_best_fit m a 100 al = Some z"
    "find_worst_fit m a 100 al = Some y"
proof -
  from path have l: "f_free_list a = x" "x \<noteq> nullptr" "hdr_next m x = y" "y \<noteq> nullptr"
    "hdr_next m y = z" "z \<noteq> nullptr" "hdr_next m z = nullptr"
    by simp_all
  have f: "\<not> fits m 100 al x" "fits m 100 al y" "fits m 100 al z"
    "\<not> exact_fit m 100 al y" "\<not> exact_fit m 100 al z"
    using sizes pad by (simp_all add: fits_def exact_fit_def)
  show "find_first_fit m a 100 al = Some y"
    using l f by (simp add: find_first_fit_def find_first_fit_loop_unfold)
  show "find_best_fit m a 100 al = Some z"
    using l f sizes by (simp add: find_best_fit_def find_best_fit_loop_unfold)
  show "find_worst_fit m a 100 al = Some y"
    using l f sizes by (simp add: find_worst_fit_def find_worst_fit_loop_unfold)
qed

text \<open>
  C3, with the stopping rule of best fit as the scan has it. On a free list of three
  blocks of sizes 80, 200 and 120, none of which needs padding, a request for 100 bytes
  selects the second block under first fit, the third under best fit and the second
  under worst fit. On every well-formed free list each scan returns, and its result is
  the earliest of the equally good candidates: first fit takes the first block that
  fits, best fit a fitting block strictly smaller than every fitting block before it,
  worst fit a fitting block strictly larger than every fitting block before it and at
  least as large as every one after it. Best fit stops at an exact fit only when that
  block is strictly smaller than every fitting block before it: it returns the first
  such block \<open>b\<close> whatever follows \<open>b\<close> in the list, and a block it does not stop at
  is no larger than any fitting block after it.
\<close>

theorem fit_strategies:
  "(heap_path m (f_free_list a) [x, y, z] nullptr
      \<and> hdr_size m x = 80 \<and> hdr_size m y = 200 \<and> hdr_size m z = 120
      \<and> calc_padding (x + HEADER_SIZE) al = 0 \<and> calc_padding (y + HEADER_SIZE) al = 0
      \<and> calc_padding (z + HEADER_SIZE) al = 0
    \<longrightarrow> find_first_fit m a 100 al = Some y \<and> find_best_fit m a 100 al = Some z
        \<and> find_worst_fit m a 100 al = Some y)
   \<and> (heap_path m (f_free_list a) xs nullptr
    \<longrightarrow> (\<exists>r. find_first_fit m a sz al = Some r \<and> first_choice m sz al xs r)
        \<and> (\<exists>r. find_best_fit m a sz al = Some r \<and> best_choice m sz al xs r)
        \<and> (\<exists>r. find_worst_fit m a sz al = Some r \<and> worst_choice m sz al xs r))
   \<and> (heap_path m (f_free_list a) pre b \<and> b \<noteq> nullptr \<and> best_stop m sz al pre b
      \<and> (\<forall>us c vs. pre = us @ c # vs \<longrightarrow> \<not> best_stop m sz al us c)
    \<longrightarrow> find_best_fit m a sz al = Some b)"
proof (intro conjI impI)
  assume "heap_path m (f_free_list a) xs nullptr"
  then show "\<exists>r. find_first_fit m a sz al = Some r \<and> first_choice m sz al xs r"
    unfolding find_first_fit_def by (rule find_first_fit_loop_choice)
qed (blast intro: fit_example find_best_fit_choice find_worst_fit_choice find_best_fit_stop)+

theorem fit_strategies_witness:
  "(find_first_fit ex_fit_m6 ex_fit_a6 100 1 = Some 4240
      \<and> find_best_fit ex_fit_m6 ex_fit_a6 100 1 = Some 4096
      \<and> find_worst_fit ex_fit_m6 ex_fit_a6 100 1 = Some 4240)
   \<and> (first_choice ex_fit_m6 100 1 [4464, 4240, 4096] 4240
      \<and> best_choice ex_fit_m6 100 1 [4464, 4240, 4096] 4096
      \<and> worst_choice ex_fit_m6 100 1 [4464, 4240, 4096] 4240)
   \<and> find_best_fit ex_pad_m6 ex_pad_a6 16 16 = Some 4152"
proof -
  have sizes: "hdr_size ex_fit_m6 4464 = 80" "hdr_size ex_fit_m6 4240 = 200"
    "hdr_size ex_fit_m6 4096 = 120"
    using ex_fit_list(2) by simp_all
  have pad: "calc_padding (4464 + HEADER_SIZE) 1 = 0" "calc_padding (4240 + HEADER_SIZE) 1 = 0"
    "calc_padding (4096 + HEADER_SIZE) 1 = 0"
    by (simp_all add: calc_padding_def)
  have stop: "best_stop ex_pad_m6 16 16 [4104, 4192] 4152"
    using ex_pad_list(2) by (simp add: best_stop_def exact_fit_def fits_def calc_padding_def
      HEADER_SIZE_def)
  have first: "\<forall>us c vs. [4104, 4192] = us @ c # vs \<longrightarrow> \<not> best_stop ex_pad_m6 16 16 us c"
    using ex_pad_list(2)
    by (auto simp add: Cons_eq_append_conv best_stop_def exact_fit_def fits_def calc_padding_def
      HEADER_SIZE_def)
  have path: "heap_path ex_pad_m6 (f_free_list ex_pad_a6) [4104, 4192] 4152"
    using ex_pad_list(1) by simp
  note t = fit_strategies [where m = ex_fit_m6 and a = ex_fit_a6 and x = 4464 and y = 4240
    and z = 4096 and al = 1 and xs = "[4464, 4240, 4096]" and sz = 100]
  note u = fit_strategies [where m = ex_pad_m6 and a = ex_pad_a6 and pre = "[4104, 4192]"
    and b = 4152 and sz = 16 and al = 16]
  from t ex_fit_list(1) sizes pad
  have 1: "find_first_fit ex_fit_m6 ex_fit_a6 100 1 = Some 4240
      \<and> find_best_fit ex_fit_m6 ex_fit_a6 100 1 = Some 4096
      \<and> find_worst_fit ex_fit_m6 ex_fit_a6 100 1 = Some 4240"
    by blast
  from t ex_fit_list(1)
  have "(\<exists>r. find_first_fit ex_fit_m6 ex_fit_a6 100 1 = Some r
          \<and> first_choice ex_fit_m6 100 1 [4464, 4240, 4096] r)
      \<and> (\<exists>r. find_best_fit ex_fit_m6 ex_fit_a6 100 1 = Some r
          \<and> best_choice ex_fit_m6 100 1 [4464, 4240, 4096] r)
      \<and> (\<exists>r. find_worst_fit ex_fit_m6 ex_fit_a6 100 1 = Some r
          \<and> worst_choice ex_fit_m6 100 1 [4464, 4240, 4096] r)"
    by blast
  with 1 have 2: "first_choice ex_fit_m6 100 1 [4464, 4240, 4096] 4240
      \<and> best_choice ex_fit_m6 100 1 [4464, 4240, 4096] 4096
      \<and> worst_choice ex_fit_m6 100 1 [4464, 4240, 4096] 4240"
    by simp
  from u path stop first have "find_best_fit ex_pad_m6 ex_pad_a6 16 16 = Some 4152"
    by simp
  with 1 2 show ?thesis
    by blast
qed

text \<open>
  The statement of C3 without the restriction fails. In the best-fit heap of
  \<open>ex_pad_m6\<close>, reached from a fresh heap by three allocations and three
  deallocations, a request for 16 bytes aligned to 16 finds the block at 4192 second
  in the free list, an exact fit (size 24, padding 8). The scan does not stop there:
  it returns the block at 4152, which comes after it.
\<close>

theorem best_fit_passes_exact_fit:
  "heap_new_borrowed zero_memory 4104 136 BestFit = Some (ex_pad_m0, ex_pad_a0)
   \<and> heap_run ex_pad_m0 ex_pad_a0
        [HAllocate 24 1, HAllocate 16 1, HAllocate 24 1,
         HDeallocate 4176, HDeallocate 4216, HDeallocate 4128]
      = Some ([4128, 4176, 4216], ex_pad_m6, ex_pad_a6)
   \<and> heap_path ex_pad_m6 (f_free_list ex_pad_a6) [4104, 4192, 4152] nullptr
   \<and> exact_fit ex_pad_m6 16 16 4192
   \<and> find_best_fit ex_pad_m6 ex_pad_a6 16 16 = Some 4152"
  using ex_pad_new ex_pad_run ex_pad_list(1) ex_pad_find by simp

end
